theory Spec2Isabelle
  imports Main "HOL-Library.Word"
begin

unbundle bit_operations_syntax

section \<open>The Hurd procfs translator: main program (procfs/main.c)\<close>

text \<open>
  This theory embeds \<^verbatim>\<open>procfs/main.c\<close>: the five option variables, the option
  parser \<^verbatim>\<open>argp_parser\<close>, the option tables, \<^verbatim>\<open>netfs_append_args\<close>,
  \<^verbatim>\<open>root_make_node\<close> and the start-up sequence of \<^verbatim>\<open>main\<close>.

  C types. On the GNU Hurd \<^verbatim>\<open>int\<close> and \<^verbatim>\<open>pid_t\<close> are signed 32-bit integers,
  \<^verbatim>\<open>uid_t\<close> and \<^verbatim>\<open>mode_t\<close> are unsigned 32-bit integers; all four are \<open>32 word\<close>
  here, read with \<open>sint\<close> where the C type is signed and with \<open>unat\<close>/\<open>uint\<close> where it
  is unsigned. The width of \<^verbatim>\<open>long\<close> differs between the ports (32 bits on i386, 64 bits
  on x86_64); it is the field \<open>LONG_BIT\<close> of the environment, and a \<^verbatim>\<open>long\<close> value is
  an \<open>int\<close> kept inside the range of that width. Converting a \<^verbatim>\<open>long\<close> to a 32-bit
  type keeps the low 32 bits (\<open>word_of_int\<close>), as GCC does.
\<close>

type_synonym c_int = "32 word"
type_synonym pid_t = "32 word"
type_synonym uid_t = "32 word"
type_synonym mode_t = "32 word"

text \<open>\<^verbatim>\<open>error_t\<close>: 0, the two codes this file names, and any other code of a callee.\<close>

datatype error_t = ESUCCESS | ENOMEM | ARGP_ERR_UNKNOWN | Errno nat

datatype byte_order = Little_endian | Big_endian

text \<open>
  What the program reads from its surroundings: the width of \<^verbatim>\<open>long\<close>, the order of
  the bytes of a word in memory, the value of
  \<^verbatim>\<open>sysconf (_SC_CLK_TCK)\<close>, the password database behind \<^verbatim>\<open>getpwnam\<close>
  (the \<^verbatim>\<open>pw_uid\<close> of the entry found, or \<open>None\<close> for a null result), whether the
  reallocation inside \<^verbatim>\<open>argz_add\<close> fails for a given vector, and libnetfs's
  \<^verbatim>\<open>netfs_append_std_options\<close>.
\<close>

record env =
  LONG_BIT :: nat
  byte_order :: byte_order
  sysconf_CLK_TCK :: int
  getpwnam :: "string \<Rightarrow> uid_t option"
  realloc_fails :: "string list \<Rightarrow> bool"
  netfs_append_std_options :: "string list \<Rightarrow> error_t \<times> string list"

definition LONG_MAX :: "env \<Rightarrow> int" where
  "LONG_MAX e = 2 ^ (LONG_BIT e - 1) - 1"

definition LONG_MIN :: "env \<Rightarrow> int" where
  "LONG_MIN e = - (2 ^ (LONG_BIT e - 1))"

subsection \<open>The C library's strtol\<close>

text \<open>
  \<^verbatim>\<open>strtol (nptr, &endp, base)\<close> in the C locale, after ISO C 7.20.1.4: white space is
  skipped, then an optional sign, then for base 0 or 16 an optional \<^verbatim>\<open>0x\<close> prefix (base 0
  without it is octal after a leading \<^verbatim>\<open>0\<close> and decimal otherwise), then the longest run
  of digits of the base. With no digit at all the result is 0 and \<^verbatim>\<open>endp\<close> is
  \<^verbatim>\<open>nptr\<close> (for a bare \<^verbatim>\<open>0x\<close> the zero is converted and \<^verbatim>\<open>endp\<close> points to the
  \<^verbatim>\<open>x\<close>). A value outside the range of \<^verbatim>\<open>long\<close> is replaced by \<^verbatim>\<open>LONG_MAX\<close> or
  \<^verbatim>\<open>LONG_MIN\<close>. A C string is the list of its characters before the terminating NUL;
  \<^verbatim>\<open>*endp\<close> is nonzero exactly when the remaining list is not empty.
\<close>

definition isspace :: "char \<Rightarrow> bool" where
  "isspace c = (c = CHR '' '' \<or> c = CHR 0x09 \<or> c = CHR 0x0A \<or> c = CHR 0x0B
                \<or> c = CHR 0x0C \<or> c = CHR 0x0D)"

definition digit_val :: "char \<Rightarrow> int option" where
  "digit_val c =
     (let n = (of_char c :: int) in
      if 48 \<le> n \<and> n \<le> 57 then Some (n - 48)
      else if 65 \<le> n \<and> n \<le> 90 then Some (n - 55)
      else if 97 \<le> n \<and> n \<le> 122 then Some (n - 87)
      else None)"

fun strtol_digits :: "int \<Rightarrow> int \<Rightarrow> string \<Rightarrow> int \<times> string" where
  "strtol_digits b acc [] = (acc, [])"
| "strtol_digits b acc (c # cs) =
     (case digit_val c of
        None \<Rightarrow> (acc, c # cs)
      | Some d \<Rightarrow> if d < b then strtol_digits b (acc * b + d) cs else (acc, c # cs))"

definition strtol_sign :: "string \<Rightarrow> bool \<times> string" where
  "strtol_sign s =
     (case s of
        [] \<Rightarrow> (False, s)
      | c # t \<Rightarrow> if c = CHR ''-'' then (True, t)
                 else if c = CHR ''+'' then (False, t)
                 else (False, s))"

definition strtol_prefix :: "int \<Rightarrow> string \<Rightarrow> int \<times> string \<times> bool" where
  "strtol_prefix base s =
     (case s of
        c # x # t \<Rightarrow>
          if c = CHR ''0'' \<and> (base = 0 \<or> base = 16) \<and> (x = CHR ''x'' \<or> x = CHR ''X'')
          then (16, t, True)
          else if c = CHR ''0'' \<and> base = 0 then (8, s, False)
          else if base = 0 then (10, s, False)
          else (base, s, False)
      | [c] \<Rightarrow>
          if c = CHR ''0'' \<and> base = 0 then (8, s, False)
          else if base = 0 then (10, s, False)
          else (base, s, False)
      | [] \<Rightarrow> (if base = 0 then 10 else base, s, False))"

text \<open>The value the digits denote, before it is fitted into a \<^verbatim>\<open>long\<close>, and the rest.\<close>

definition strtol_unbounded :: "string \<Rightarrow> int \<Rightarrow> int \<times> string" where
  "strtol_unbounded nptr base =
     (let (neg, s1) = strtol_sign (dropWhile isspace nptr);
          (b, s2, hex) = strtol_prefix base s1;
          (mag, rest) = strtol_digits b 0 s2
      in if rest = s2
         then (0, if hex then drop 1 s1 else nptr)
         else (if neg then - mag else mag, rest))"

definition strtol :: "env \<Rightarrow> string \<Rightarrow> int \<Rightarrow> int \<times> string" where
  "strtol e nptr base =
     (let (v, endp) = strtol_unbounded nptr base
      in (if v > LONG_MAX e then LONG_MAX e
          else if v < LONG_MIN e then LONG_MIN e
          else v, endp))"

subsection \<open>The option variables and their defaults\<close>

record options =
  opt_clk_tck :: c_int
  opt_stat_mode :: mode_t
  opt_fake_self :: pid_t
  opt_kernel_pid :: pid_t
  opt_anon_owner :: uid_t

definition OPT_CLK_TCK :: "env \<Rightarrow> int" where
  "OPT_CLK_TCK e = sysconf_CLK_TCK e"

definition OPT_STAT_MODE :: int where
  "OPT_STAT_MODE = 256"

definition OPT_FAKE_SELF :: int where
  "OPT_FAKE_SELF = -1"

definition OPT_KERNEL_PID :: int where
  "OPT_KERNEL_PID = 2"

definition OPT_ANON_OWNER :: int where
  "OPT_ANON_OWNER = 0"

definition NODEV_KEY :: int where
  "NODEV_KEY = -1"

definition NOEXEC_KEY :: int where
  "NOEXEC_KEY = -2"

definition NOSUID_KEY :: int where
  "NOSUID_KEY = -3"

text \<open>The five assignments at the head of \<^verbatim>\<open>main\<close>, before \<^verbatim>\<open>argp_parse\<close> runs.\<close>

definition main_defaults :: "env \<Rightarrow> options" where
  "main_defaults e =
     \<lparr> opt_clk_tck = word_of_int (OPT_CLK_TCK e),
       opt_stat_mode = word_of_int OPT_STAT_MODE,
       opt_fake_self = word_of_int OPT_FAKE_SELF,
       opt_kernel_pid = word_of_int OPT_KERNEL_PID,
       opt_anon_owner = word_of_int OPT_ANON_OWNER \<rparr>"

subsection \<open>argp_parser\<close>

text \<open>
  The result of one call of the parser: the value returned, the option variables after
  the call, and the message given to \<^verbatim>\<open>argp_error\<close> if it was called. Whether
  \<^verbatim>\<open>argp_error\<close> exits the process or returns depends on the flags of the running
  \<^verbatim>\<open>argp_parse\<close>; where it returns, the parser goes on to \<^verbatim>\<open>break\<close> and returns 0,
  which is the value recorded. The whole result is \<open>None\<close> where the C code would read
  through a null \<^verbatim>\<open>arg\<close> (argp passes a null \<^verbatim>\<open>arg\<close> only for an option whose argument
  is declared optional or absent).
\<close>

record parser_result =
  ret :: error_t
  opts :: options
  argp_error :: "string option"

definition returned :: "options \<Rightarrow> parser_result" where
  "returned s = \<lparr> ret = ESUCCESS, opts = s, argp_error = None \<rparr>"

definition raise_argp_error :: "options \<Rightarrow> string \<Rightarrow> parser_result" where
  "raise_argp_error s msg = \<lparr> ret = ESUCCESS, opts = s, argp_error = Some msg \<rparr>"

definition unknown_key :: "options \<Rightarrow> parser_result" where
  "unknown_key s = \<lparr> ret = ARGP_ERR_UNKNOWN, opts = s, argp_error = None \<rparr>"

abbreviation key_of :: "char \<Rightarrow> int" where
  "key_of c \<equiv> of_char c"

definition case_h :: "env \<Rightarrow> string \<Rightarrow> options \<Rightarrow> parser_result" where
  "case_h e arg s =
     (let (v, endp) = strtol e arg 0 in
      if endp \<noteq> [] \<or> arg = [] \<or> v \<le> 0
      then raise_argp_error s ''--clk-tck: HZ should be a positive integer''
      else returned (s\<lparr>opt_clk_tck := word_of_int v\<rparr>))"

definition case_s :: "env \<Rightarrow> string \<Rightarrow> options \<Rightarrow> parser_result" where
  "case_s e arg s =
     (let (v, endp) = strtol e arg 8 in
      if endp \<noteq> [] \<or> arg = [] \<or> (word_of_int v :: mode_t) AND NOT 4095 \<noteq> 0
      then raise_argp_error s ''--stat-mode: MODE should be an octal mode''
      else returned (s\<lparr>opt_stat_mode := word_of_int v\<rparr>))"

definition case_S :: "env \<Rightarrow> string option \<Rightarrow> options \<Rightarrow> parser_result" where
  "case_S e arg s =
     (case arg of
        Some a \<Rightarrow>
          (let (v, endp) = strtol e a 0 in
           if endp \<noteq> [] \<or> a = []
           then raise_argp_error s ''--fake-self: PID must be an integer''
           else returned (s\<lparr>opt_fake_self := word_of_int v\<rparr>))
      | None \<Rightarrow> returned (s\<lparr>opt_fake_self := 1\<rparr>))"

definition case_k :: "env \<Rightarrow> string \<Rightarrow> options \<Rightarrow> parser_result" where
  "case_k e arg s =
     (let (v, endp) = strtol e arg 0 in
      if endp \<noteq> [] \<or> arg = [] \<or> sint (opt_kernel_pid s) < 0
      then raise_argp_error s ''--kernel-process: PID must be a positive integer''
      else returned (s\<lparr>opt_kernel_pid := word_of_int v\<rparr>))"

definition case_c :: "options \<Rightarrow> parser_result" where
  "case_c s = returned (s\<lparr>opt_clk_tck := 100, opt_stat_mode := 292, opt_fake_self := 1\<rparr>)"

definition case_a :: "env \<Rightarrow> string \<Rightarrow> options \<Rightarrow> parser_result" where
  "case_a e arg s =
     (case getpwnam e arg of
        Some pw_uid \<Rightarrow> returned (s\<lparr>opt_anon_owner := pw_uid\<rparr>)
      | None \<Rightarrow>
          (let (v, endp) = strtol e arg 0 in
           if endp \<noteq> [] \<or> arg = [] \<or> v < 0
           then raise_argp_error s
                  ''--anonymous-owner: USER should be a user name or a numeric UID.''
           else returned (s\<lparr>opt_anon_owner := word_of_int v\<rparr>)))"

text \<open>
  The \<^verbatim>\<open>switch\<close>. The cases \<^verbatim>\<open>NODEV_KEY\<close>, \<^verbatim>\<open>NOEXEC_KEY\<close> and \<^verbatim>\<open>NOSUID_KEY\<close>
  hold empty statements and no \<^verbatim>\<open>break\<close>, so control runs from each of them through the
  following labels into \<^verbatim>\<open>default\<close>, which returns \<^verbatim>\<open>ARGP_ERR_UNKNOWN\<close>.
\<close>

definition argp_parser ::
  "env \<Rightarrow> int \<Rightarrow> string option \<Rightarrow> options \<Rightarrow> parser_result option" where
  "argp_parser e key arg s =
     (if key = key_of CHR ''h'' then map_option (\<lambda>a. case_h e a s) arg
      else if key = key_of CHR ''s'' then map_option (\<lambda>a. case_s e a s) arg
      else if key = key_of CHR ''S'' then Some (case_S e arg s)
      else if key = key_of CHR ''k'' then map_option (\<lambda>a. case_k e a s) arg
      else if key = key_of CHR ''c'' then Some (case_c s)
      else if key = key_of CHR ''a'' then map_option (\<lambda>a. case_a e a s) arg
      else if key = NODEV_KEY then Some (unknown_key s)
      else if key = NOEXEC_KEY then Some (unknown_key s)
      else if key = NOSUID_KEY then Some (unknown_key s)
      else Some (unknown_key s))"

definition runtime_argp_parser :: "int \<Rightarrow> string option \<Rightarrow> options \<Rightarrow> parser_result" where
  "runtime_argp_parser key arg s =
     (if key = key_of CHR ''u'' then returned s else unknown_key s)"

subsection \<open>The option tables and the argp structures\<close>

record argp_option =
  o_name :: string
  o_key :: int
  o_arg :: "string option"
  o_flags :: int
  o_doc :: string

definition OPTION_ARG_OPTIONAL :: int where
  "OPTION_ARG_OPTIONAL = 1"

text \<open>The documentation of \<^verbatim>\<open>--fake-self\<close>; \<open>CHR 0x22\<close> is the double quote.\<close>

definition fake_self_doc :: string where
  "fake_self_doc =
     ''Provide a fake '' @ [CHR 0x22] @ ''self'' @ [CHR 0x22] @
     '' symlink to the given PID, for compatibility purposes.  If PID is omitted, '' @
     [CHR 0x22] @ ''self'' @ [CHR 0x22] @
     '' will point to init.  (default: no self link)''"

definition common_options :: "argp_option list" where
  "common_options =
   [ \<lparr> o_name = ''clk-tck'', o_key = key_of CHR ''h'', o_arg = Some ''HZ'', o_flags = 0,
       o_doc = ''Unit used for the values expressed in system clock ticks (default: sysconf(_SC_CLK_TCK))'' \<rparr>,
     \<lparr> o_name = ''stat-mode'', o_key = key_of CHR ''s'', o_arg = Some ''MODE'', o_flags = 0,
       o_doc = ''The [pid]/stat file publishes information which on Hurd is only available to the process owner.  You can use this option to override its mode to be more permissive for compatibility purposes.  (default: 0400)'' \<rparr>,
     \<lparr> o_name = ''fake-self'', o_key = key_of CHR ''S'', o_arg = Some ''PID'',
       o_flags = OPTION_ARG_OPTIONAL,
       o_doc = fake_self_doc \<rparr>,
     \<lparr> o_name = ''kernel-process'', o_key = key_of CHR ''k'', o_arg = Some ''PID'', o_flags = 0,
       o_doc = ''Process identifier for the kernel, used to retreive its command line, as well as the global up and idle times. (default: 2)'' \<rparr>,
     \<lparr> o_name = ''compatible'', o_key = key_of CHR ''c'', o_arg = None, o_flags = 0,
       o_doc = ''Try to be compatible with the Linux procps utilities.  Currently equivalent to -h 100 -s 0444 -S 1.'' \<rparr>,
     \<lparr> o_name = ''anonymous-owner'', o_key = key_of CHR ''a'', o_arg = Some ''USER'', o_flags = 0,
       o_doc = ''Make USER the owner of files related to processes without one.  Be aware that USER will be granted access to the environment and other sensitive information about the processes in question.  (default: use uid 0)'' \<rparr>,
     \<lparr> o_name = ''nodev'', o_key = NODEV_KEY, o_arg = None, o_flags = 0,
       o_doc = ''Ignored for compatibility with Linux' procfs.'' \<rparr>,
     \<lparr> o_name = ''noexec'', o_key = NOEXEC_KEY, o_arg = None, o_flags = 0,
       o_doc = ''Ignored for compatibility with Linux' procfs.'' \<rparr>,
     \<lparr> o_name = ''nosuid'', o_key = NOSUID_KEY, o_arg = None, o_flags = 0,
       o_doc = ''Ignored for compatibility with Linux' procfs.'' \<rparr> ]"

text \<open>
  A \<^verbatim>\<open>struct argp\<close>: its option table, its parser and its children. The parsers are the
  two functions of this file and those of libnetfs's standard argp structures, which
  belong to the library and have no access to the option variables of this file.
\<close>

datatype parser_fn = Argp_parser | Runtime_argp_parser | Netfs_std_parser

datatype argp = Argp (options: "argp_option list") (parser: parser_fn) (children: "argp list")

definition netfs_std_startup_argp :: argp where
  "netfs_std_startup_argp = Argp [] Netfs_std_parser []"

definition netfs_std_runtime_argp :: argp where
  "netfs_std_runtime_argp = Argp [] Netfs_std_parser []"

definition argp :: argp where
  "argp = Argp common_options Argp_parser [netfs_std_startup_argp]"

definition runtime_argp :: argp where
  "runtime_argp =
     Argp [\<lparr> o_name = ''update'', o_key = key_of CHR ''u'', o_arg = None, o_flags = 0,
             o_doc = ''remount; for procfs this does nothing'' \<rparr>]
          Runtime_argp_parser []"

text \<open>The structure the source calls \<^verbatim>\<open>netfs_runtime_argp_\<close>; nothing refers to it.\<close>

definition netfs_runtime_argp_underscore :: argp where
  "netfs_runtime_argp_underscore =
     Argp common_options Argp_parser [runtime_argp, netfs_std_runtime_argp]"

text \<open>\<^verbatim>\<open>struct argp *netfs_runtime_argp = &argp;\<close>\<close>

definition netfs_runtime_argp :: argp where
  "netfs_runtime_argp = argp"

text \<open>Calling through the function pointer of a \<^verbatim>\<open>struct argp\<close>.\<close>

definition call_parser ::
  "env \<Rightarrow> parser_fn \<Rightarrow> int \<Rightarrow> string option \<Rightarrow> options \<Rightarrow> parser_result option" where
  "call_parser e p key arg s =
     (case p of
        Argp_parser \<Rightarrow> argp_parser e key arg s
      | Runtime_argp_parser \<Rightarrow> Some (runtime_argp_parser key arg s)
      | Netfs_std_parser \<Rightarrow> Some (unknown_key s))"

text \<open>
  Run-time option handling: libnetfs's \<^verbatim>\<open>netfs_set_options\<close> hands the options of an
  \<^verbatim>\<open>fsys_set_options\<close> request to \<^verbatim>\<open>argp_parse\<close> with \<^verbatim>\<open>netfs_runtime_argp\<close>, and
  argp calls the parser of that structure for each option of its table. One option of
  such a request, already split into key and argument:
\<close>

definition netfs_set_option ::
  "env \<Rightarrow> int \<Rightarrow> string option \<Rightarrow> options \<Rightarrow> parser_result option" where
  "netfs_set_option e key arg s = call_parser e (parser netfs_runtime_argp) key arg s"

subsection \<open>netfs_append_args\<close>

text \<open>
  An argz vector is the list of its strings. \<^verbatim>\<open>argz_add\<close> appends one string, or
  returns \<^verbatim>\<open>ENOMEM\<close> and leaves the vector as it is when its reallocation fails.
\<close>

definition argz_add :: "env \<Rightarrow> string list \<Rightarrow> string \<Rightarrow> error_t \<times> string list" where
  "argz_add e argz str =
     (if realloc_fails e argz then (ENOMEM, argz) else (ESUCCESS, argz @ [str]))"

text \<open>
  The conversions of \<^verbatim>\<open>snprintf\<close> used here: \<^verbatim>\<open>%d\<close> prints its 32-bit argument as a signed
  decimal number, \<^verbatim>\<open>%o\<close> as an unsigned octal number; the output is cut to the size of
  the buffer less one.
\<close>

function format_digits :: "int \<Rightarrow> int \<Rightarrow> string" where
  "format_digits b n =
     (if n < b \<or> b < 2 then [char_of (48 + n)]
      else format_digits b (n div b) @ [char_of (48 + n mod b)])"
  by pat_completeness auto
termination
  by (relation "measure (\<lambda>(b, n). nat n)") (auto simp: int_div_less_self)

declare format_digits.simps [simp del]

definition format_d :: "32 word \<Rightarrow> string" where
  "format_d w = (if sint w < 0 then CHR ''-'' # format_digits 10 (- sint w)
                 else format_digits 10 (sint w))"

definition format_o :: "32 word \<Rightarrow> string" where
  "format_o w = format_digits 8 (uint w)"

definition snprintf :: "nat \<Rightarrow> string \<Rightarrow> string" where
  "snprintf n str = take (n - 1) str"

text \<open>
  The macro \<^verbatim>\<open>FOPT (opt, default, fmt, args)\<close>: \<open>differs\<close> is the comparison
  \<^verbatim>\<open>opt != default\<close>, \<open>str\<close> the formatted text.
\<close>

definition FOPT ::
  "env \<Rightarrow> bool \<Rightarrow> string \<Rightarrow> error_t \<times> string list \<Rightarrow> error_t \<times> string list" where
  "FOPT e differs str r =
     (case r of (err, argz) \<Rightarrow>
        if err = ESUCCESS \<and> differs then argz_add e argz (snprintf 80 str) else (err, argz))"

definition netfs_append_args ::
  "env \<Rightarrow> options \<Rightarrow> string list \<Rightarrow> error_t \<times> string list" where
  "netfs_append_args e s argz =
     (let r0 = (ESUCCESS, argz);
          r1 = FOPT e (sint (opt_clk_tck s) \<noteq> OPT_CLK_TCK e)
                 (''--clk-tck='' @ format_d (opt_clk_tck s)) r0;
          r2 = FOPT e (uint (opt_stat_mode s) \<noteq> OPT_STAT_MODE)
                 (''--stat-mode='' @ format_o (opt_stat_mode s)) r1;
          r3 = FOPT e (sint (opt_fake_self s) \<noteq> OPT_FAKE_SELF)
                 (''--fake-self='' @ format_d (opt_fake_self s)) r2;
          r4 = FOPT e (uint (opt_anon_owner s) \<noteq> OPT_ANON_OWNER)
                 (''--anonymous-owner='' @ format_d (opt_anon_owner s)) r3;
          r5 = FOPT e (sint (opt_kernel_pid s) \<noteq> OPT_KERNEL_PID)
                 (''--kernel-process='' @ format_d (opt_kernel_pid s)) r4
      in if fst r5 = ESUCCESS then netfs_append_std_options e (snd r5) else r5)"

text \<open>
  Reading the strings back. argp (through \<^verbatim>\<open>getopt_long\<close>) splits a word
  \<^verbatim>\<open>--name=value\<close> at the first \<^verbatim>\<open>=\<close>, finds \<^verbatim>\<open>name\<close> in the option table and calls
  the parser with the key of that entry and the value; a word \<^verbatim>\<open>--name\<close> gives a null
  argument. Then the parser runs once per option, in order; parsing stops at the first
  option that is rejected.
\<close>

definition long_option :: "argp_option list \<Rightarrow> string \<Rightarrow> (int \<times> string option) option" where
  "long_option table w =
     (if take 2 w = ''--''
      then (let body = drop 2 w;
                nm = takeWhile (\<lambda>c. c \<noteq> CHR ''='') body;
                rest = dropWhile (\<lambda>c. c \<noteq> CHR ''='') body
            in case find (\<lambda>opt. o_name opt = nm) table of
                 None \<Rightarrow> None
               | Some opt \<Rightarrow> Some (o_key opt, if rest = [] then None else Some (drop 1 rest)))
      else None)"

fun parse_options :: "env \<Rightarrow> (int \<times> string option) list \<Rightarrow> options \<Rightarrow> options option" where
  "parse_options e [] s = Some s"
| "parse_options e ((key, arg) # rest) s =
     (case argp_parser e key arg s of
        None \<Rightarrow> None
      | Some r \<Rightarrow> if ret r = ESUCCESS \<and> argp_error r = None
                  then parse_options e rest (opts r) else None)"

definition parse_words :: "env \<Rightarrow> string list \<Rightarrow> options \<Rightarrow> options option" where
  "parse_words e ws s =
     (case those (map (long_option common_options) ws) of
        None \<Rightarrow> None
      | Some kas \<Rightarrow> parse_options e kas s)"

text \<open>
  What Claim C10 expects \<^verbatim>\<open>netfs_append_args\<close> to append, in the words of the claim: in
  the fixed order, one word for each option variable whose value differs from the value
  \<^verbatim>\<open>main\<close> gave it at start-up, and none for a variable that still has that value.
\<close>

definition knob_words :: "env \<Rightarrow> options \<Rightarrow> string list" where
  "knob_words e s =
     (if opt_clk_tck s \<noteq> opt_clk_tck (main_defaults e)
      then [''--clk-tck='' @ format_d (opt_clk_tck s)] else []) @
     (if opt_stat_mode s \<noteq> opt_stat_mode (main_defaults e)
      then [''--stat-mode='' @ format_o (opt_stat_mode s)] else []) @
     (if opt_fake_self s \<noteq> opt_fake_self (main_defaults e)
      then [''--fake-self='' @ format_d (opt_fake_self s)] else []) @
     (if opt_anon_owner s \<noteq> opt_anon_owner (main_defaults e)
      then [''--anonymous-owner='' @ format_d (opt_anon_owner s)] else []) @
     (if opt_kernel_pid s \<noteq> opt_kernel_pid (main_defaults e)
      then [''--kernel-process='' @ format_d (opt_kernel_pid s)] else [])"

text \<open>
  The option variables for which printing and reading back agree: a clock tick that is
  positive unless it is the default, a stat mode within 07777, an anonymous owner that
  is 0 or a uid below \<open>2 ^ 31\<close> whose decimal form is no user's name, and a kernel
  process id that is positive.
\<close>

definition reparsable :: "env \<Rightarrow> options \<Rightarrow> bool" where
  "reparsable e s =
     ((opt_clk_tck s = opt_clk_tck (main_defaults e) \<or> 0 < sint (opt_clk_tck s)) \<and>
      opt_stat_mode s AND NOT 4095 = 0 \<and>
      (opt_anon_owner s = 0 \<or>
       0 \<le> sint (opt_anon_owner s) \<and> getpwnam e (format_d (opt_anon_owner s)) = None) \<and>
      0 < sint (opt_kernel_pid s))"

subsection \<open>root_make_node and main\<close>

text \<open>
  A \<^verbatim>\<open>struct node\<close>, as far as this file reads or writes it: the inode number of its
  \<^verbatim>\<open>nn_stat\<close> (an \<^verbatim>\<open>ino_t\<close>, 64 bits wide in libnetfs's \<^verbatim>\<open>io_statbuf_t\<close>) and what its
  maker put into it. A \<^verbatim>\<open>struct node *\<close> is an \<open>option\<close>, \<open>None\<close> the null pointer.

  The functions this file calls and does not define: libps, Mach and argp, and the node
  makers of proclist.c, rootdir.c and dircat.c.
\<close>

record 'h node =
  nn_stat_st_ino :: "64 word"
  nn :: 'h

record ('pc, 'a, 'b) callees =
  argp_parse :: "options \<Rightarrow> error_t \<times> options"
  ps_context_create :: "error_t \<times> 'pc"
  task_get_bootstrap_port :: nat
  proclist_make_node :: "'pc \<Rightarrow> 'a node option"
  rootdir_make_node :: "'pc \<Rightarrow> 'a node option"
  dircat_make_node :: "'a node option list \<Rightarrow> nat \<Rightarrow> 'b node option"

definition MACH_PORT_NULL :: nat where
  "MACH_PORT_NULL = 0"

text \<open>The bytes of a string literal in memory, and \<^verbatim>\<open>* (uint32_t *) p\<close> read from them.\<close>

definition string_literal :: "string \<Rightarrow> 8 word list" where
  "string_literal str = map of_char str @ [0]"

definition load_uint32 :: "byte_order \<Rightarrow> 8 word list \<Rightarrow> 32 word" where
  "load_uint32 bo bs =
     (case bo of
        Little_endian \<Rightarrow> foldr (\<lambda>b acc. ucast b OR push_bit 8 acc) (take 4 bs) 0
      | Big_endian \<Rightarrow> foldl (\<lambda>acc b. push_bit 8 acc OR ucast b) 0 (take 4 bs))"

definition root_make_node ::
  "env \<Rightarrow> ('pc, 'a, 'b) callees \<Rightarrow> 'pc \<Rightarrow> error_t \<times> 'b node option" where
  "root_make_node e m pc =
     (let root_dirs = [proclist_make_node m pc, rootdir_make_node m pc];
          np = dircat_make_node m root_dirs (length root_dirs)
      in case np of
           None \<Rightarrow> (ENOMEM, None)
         | Some n \<Rightarrow>
             (ESUCCESS,
              Some (n\<lparr>nn_stat_st_ino :=
                        ucast (load_uint32 (byte_order e) (string_literal ''PROC''))\<rparr>)))"

text \<open>
  \<^verbatim>\<open>main\<close> up to the server loop. \<^verbatim>\<open>error (1, err, msg)\<close> prints and exits with status
  1; otherwise the translator starts serving with the option variables and the root node
  it has built. The callees are taken to return: a run in which one of them ends the
  process itself (argp does so on a usage error at start-up) is not a run of this function.
\<close>

datatype 'b process = Exited int error_t string | Serving options "'b node option"

definition main :: "env \<Rightarrow> ('pc, 'a, 'b) callees \<Rightarrow> 'b process" where
  "main e m =
     (let (err, s) = argp_parse m (main_defaults e) in
      if err \<noteq> ESUCCESS then Exited 1 err ''Could not parse command line''
      else let (err, pc) = ps_context_create m in
      if err \<noteq> ESUCCESS then Exited 1 err ''Could not create libps context''
      else if task_get_bootstrap_port m = MACH_PORT_NULL
      then Exited 1 ESUCCESS ''Must be started as a translator''
      else let (err, netfs_root_node) = root_make_node e m pc in
      if err \<noteq> ESUCCESS then Exited 1 err ''Could not create the root node''
      else Serving s netfs_root_node)"

subsection \<open>Example surroundings\<close>

text \<open>
  Two environments to evaluate the program in: a 32-bit and a 64-bit \<^verbatim>\<open>long\<close>, both
  little-endian, with a clock of 100 ticks, a password database of three users, memory
  that never runs out and no standard option to report.
\<close>

definition example_passwd :: "string \<Rightarrow> uid_t option" where
  "example_passwd nm =
     (if nm = ''root'' then Some 0
      else if nm = ''daemon'' then Some 1
      else if nm = ''nobody'' then Some 4294967294
      else None)"

definition example_i386 :: env where
  "example_i386 =
     \<lparr> LONG_BIT = 32, byte_order = Little_endian, sysconf_CLK_TCK = 100,
       getpwnam = example_passwd, realloc_fails = (\<lambda>argz. False),
       netfs_append_std_options = (\<lambda>argz. (ESUCCESS, argz)) \<rparr>"

definition example_x86_64 :: env where
  "example_x86_64 = example_i386\<lparr>LONG_BIT := 64\<rparr>"

text \<open>
  Callees for \<^verbatim>\<open>main\<close>: argp finds no option on the command line, libps and Mach
  succeed, and the three node makers return fresh nodes; the node of
  \<^verbatim>\<open>dircat_make_node\<close> keeps the directories it was given. In the second set the
  allocation inside \<^verbatim>\<open>dircat_make_node\<close> fails.
\<close>

definition example_callees :: "(nat, string, string node option list) callees" where
  "example_callees =
     \<lparr> argp_parse = (\<lambda>s. (ESUCCESS, s)),
       ps_context_create = (ESUCCESS, 7),
       task_get_bootstrap_port = 1,
       proclist_make_node = (\<lambda>pc. Some \<lparr>nn_stat_st_ino = 0, nn = ''proclist''\<rparr>),
       rootdir_make_node = (\<lambda>pc. Some \<lparr>nn_stat_st_ino = 0, nn = ''rootdir''\<rparr>),
       dircat_make_node = (\<lambda>dirs num_dirs. Some \<lparr>nn_stat_st_ino = 0, nn = take num_dirs dirs\<rparr>) \<rparr>"

definition example_callees_nomem :: "(nat, string, string node option list) callees" where
  "example_callees_nomem = example_callees\<lparr>dircat_make_node := (\<lambda>dirs num_dirs. None)\<rparr>"

section \<open>Properties\<close>

lemmas strtol_eval = strtol_def strtol_unbounded_def strtol_sign_def strtol_prefix_def
  digit_val_def isspace_def LONG_MAX_def LONG_MIN_def

lemmas parser_eval = argp_parser_def case_h_def case_s_def case_S_def case_k_def case_c_def
  case_a_def returned_def raise_argp_error_def unknown_key_def NODEV_KEY_def NOEXEC_KEY_def
  NOSUID_KEY_def

lemmas example_eval = example_i386_def example_x86_64_def example_passwd_def main_defaults_def
  OPT_CLK_TCK_def OPT_STAT_MODE_def OPT_FAKE_SELF_def OPT_KERNEL_PID_def OPT_ANON_OWNER_def

subsection \<open>The ignored Linux options\<close>

text \<open>
  Claim C9. For each of the keys \<^verbatim>\<open>NODEV_KEY\<close>, \<^verbatim>\<open>NOEXEC_KEY\<close> and \<^verbatim>\<open>NOSUID_KEY\<close>
  the parser falls through into the default branch: it returns \<^verbatim>\<open>ARGP_ERR_UNKNOWN\<close>,
  with the option variables as they were and no call of \<^verbatim>\<open>argp_error\<close>. For each of the
  six keys it handles, whenever it returns at all it returns 0.
\<close>

theorem C9_ignored_keys_return_unknown:
  "(key \<in> {NODEV_KEY, NOEXEC_KEY, NOSUID_KEY} \<longrightarrow>
      argp_parser e key arg s = Some \<lparr>ret = ARGP_ERR_UNKNOWN, opts = s, argp_error = None\<rparr>) \<and>
   (key \<in> key_of ` {CHR ''h'', CHR ''s'', CHR ''S'', CHR ''k'', CHR ''c'', CHR ''a''} \<longrightarrow>
      (\<forall>r. argp_parser e key arg s = Some r \<longrightarrow> ret r = ESUCCESS))"
  by (auto simp: parser_eval Let_def split: option.splits prod.splits)

theorem C9_ignored_keys_witness:
  "NODEV_KEY \<in> {NODEV_KEY, NOEXEC_KEY, NOSUID_KEY} \<and>
   argp_parser example_i386 NODEV_KEY None (main_defaults example_i386)
     = Some \<lparr>ret = ARGP_ERR_UNKNOWN, opts = main_defaults example_i386, argp_error = None\<rparr> \<and>
   key_of CHR ''c'' \<in> key_of ` {CHR ''h'', CHR ''s'', CHR ''S'', CHR ''k'', CHR ''c'', CHR ''a''} \<and>
   argp_parser example_i386 (key_of CHR ''c'') None (main_defaults example_i386)
     = Some (case_c (main_defaults example_i386)) \<and>
   ret (case_c (main_defaults example_i386)) = ESUCCESS"
  using C9_ignored_keys_return_unknown
          [of NODEV_KEY example_i386 None "main_defaults example_i386"]
        C9_ignored_keys_return_unknown
          [of "key_of CHR ''c''" example_i386 None "main_defaults example_i386"]
  by (simp add: argp_parser_def case_c_def returned_def)

subsection \<open>The kernel process id\<close>

text \<open>
  Claim C1 says that \<^verbatim>\<open>-k\<close> accepts its argument only if it denotes a positive integer.
  The test of the parser reads the old value of \<^verbatim>\<open>opt_kernel_pid\<close>, not the number just
  parsed. Started from the defaults (kernel process id 2), \<^verbatim>\<open>-k -5\<close> is accepted and sets
  the kernel process id to -5; from then on every \<^verbatim>\<open>-k\<close> is rejected, \<^verbatim>\<open>-k 3\<close> too.
\<close>

theorem C1_negative_kernel_pid_accepted:
  "argp_parser example_i386 (key_of CHR ''k'') (Some ''-5'') (main_defaults example_i386)
     = Some \<lparr>ret = ESUCCESS, opts = (main_defaults example_i386)\<lparr>opt_kernel_pid := -5\<rparr>,
             argp_error = None\<rparr> \<and>
   argp_parser example_i386 (key_of CHR ''k'') (Some ''3'')
       ((main_defaults example_i386)\<lparr>opt_kernel_pid := -5\<rparr>)
     = Some \<lparr>ret = ESUCCESS, opts = (main_defaults example_i386)\<lparr>opt_kernel_pid := -5\<rparr>,
             argp_error = Some ''--kernel-process: PID must be a positive integer''\<rparr> \<and>
   sint (opt_kernel_pid (main_defaults example_i386)) = 2"
  by (simp add: parser_eval strtol_eval example_eval)

subsection \<open>The root node\<close>

lemma load_PROC_little: "load_uint32 Little_endian (string_literal ''PROC'') = 0x434F5250"
  by (simp add: load_uint32_def string_literal_def)

lemma load_PROC_big: "load_uint32 Big_endian (string_literal ''PROC'') = 0x50524F43"
  by (simp add: load_uint32_def string_literal_def)

lemma root_make_node_unfold:
  "root_make_node e m pc =
     (case dircat_make_node m [proclist_make_node m pc, rootdir_make_node m pc] 2 of
        None \<Rightarrow> (ENOMEM, None)
      | Some n \<Rightarrow>
          (ESUCCESS,
           Some (n\<lparr>nn_stat_st_ino :=
                     ucast (load_uint32 (byte_order e) (string_literal ''PROC''))\<rparr>)))"
  by (simp add: root_make_node_def Let_def numeral_2_eq_2)

lemma main_unfold:
  "main e m =
     (if fst (argp_parse m (main_defaults e)) \<noteq> ESUCCESS
      then Exited 1 (fst (argp_parse m (main_defaults e))) ''Could not parse command line''
      else if fst (ps_context_create m) \<noteq> ESUCCESS
      then Exited 1 (fst (ps_context_create m)) ''Could not create libps context''
      else if task_get_bootstrap_port m = MACH_PORT_NULL
      then Exited 1 ESUCCESS ''Must be started as a translator''
      else if fst (root_make_node e m (snd (ps_context_create m))) \<noteq> ESUCCESS
      then Exited 1 (fst (root_make_node e m (snd (ps_context_create m))))
             ''Could not create the root node''
      else Serving (snd (argp_parse m (main_defaults e)))
             (snd (root_make_node e m (snd (ps_context_create m)))))"
  by (simp add: main_def Let_def split: prod.splits)

lemmas callees_eval = example_callees_def example_callees_nomem_def root_make_node_def
  main_def MACH_PORT_NULL_def Let_def

text \<open>
  Claim C3. Every successful call of \<^verbatim>\<open>root_make_node\<close> returns a root node whose
  \<^verbatim>\<open>st_ino\<close> is the 32-bit number read from the four bytes \<^verbatim>\<open>'P'\<close>, \<^verbatim>\<open>'R'\<close>, \<^verbatim>\<open>'O'\<close>,
  \<^verbatim>\<open>'C'\<close> (0x50, 0x52, 0x4F, 0x43) in the byte order of the machine: \<^verbatim>\<open>'P'\<close> is the
  lowest byte on a little-endian machine (the number is 0x434F5250) and the highest on a
  big-endian one. The number is set by \<^verbatim>\<open>root_make_node\<close> itself, whatever inode number
  \<^verbatim>\<open>dircat_make_node\<close> gave the node.
\<close>

theorem C3_root_inode_is_PROC:
  assumes "root_make_node e m pc = (ESUCCESS, Some root)"
  shows "nn_stat_st_ino root = ucast (load_uint32 (byte_order e) (string_literal ''PROC'')) \<and>
         uint (nn_stat_st_ino root) =
           (case byte_order e of
              Little_endian \<Rightarrow> 0x50 + 0x52 * 2 ^ 8 + 0x4F * 2 ^ 16 + 0x43 * 2 ^ 24
            | Big_endian \<Rightarrow> 0x43 + 0x4F * 2 ^ 8 + 0x52 * 2 ^ 16 + 0x50 * 2 ^ 24)"
  using assms
  by (cases "byte_order e")
     (auto simp: root_make_node_def Let_def load_PROC_little load_PROC_big
           split: option.splits)

theorem C3_root_inode_witness:
  "root_make_node example_i386 example_callees 7 =
     (ESUCCESS, Some \<lparr>nn_stat_st_ino = 0x434F5250,
                       nn = [Some \<lparr>nn_stat_st_ino = 0, nn = ''proclist''\<rparr>,
                             Some \<lparr>nn_stat_st_ino = 0, nn = ''rootdir''\<rparr>]\<rparr>) \<and>
   uint (0x434F5250 :: 64 word) = 0x50 + 0x52 * 2 ^ 8 + 0x4F * 2 ^ 16 + 0x43 * 2 ^ 24"
proof -
  have r: "root_make_node example_i386 example_callees 7 =
     (ESUCCESS, Some \<lparr>nn_stat_st_ino = 0x434F5250,
                       nn = [Some \<lparr>nn_stat_st_ino = 0, nn = ''proclist''\<rparr>,
                             Some \<lparr>nn_stat_st_ino = 0, nn = ''rootdir''\<rparr>]\<rparr>)"
    by (simp add: callees_eval example_i386_def load_PROC_little)
  from C3_root_inode_is_PROC [OF r] show ?thesis
    using r by (simp add: example_i386_def)
qed

text \<open>
  Claim C4. \<^verbatim>\<open>root_make_node\<close> hands \<^verbatim>\<open>dircat_make_node\<close> exactly two directories, in
  this order: the node of \<^verbatim>\<open>proclist_make_node\<close>, then the node of
  \<^verbatim>\<open>rootdir_make_node\<close>, both made from the same libps context. The node that
  \<^verbatim>\<open>dircat_make_node\<close> returns for them is, with its inode number set, the root node
  returned, and the root node \<^verbatim>\<open>main\<close> starts serving with.
\<close>

theorem C4_root_composes_proclist_then_rootdir:
  "(root_make_node e m pc = (ESUCCESS, Some root) \<longrightarrow>
      (\<exists>d. dircat_make_node m [proclist_make_node m pc, rootdir_make_node m pc] 2 = Some d \<and>
           nn root = nn d)) \<and>
   (main e m = Serving s np \<longrightarrow>
      (\<exists>d. dircat_make_node m [proclist_make_node m (snd (ps_context_create m)),
                               rootdir_make_node m (snd (ps_context_create m))] 2 = Some d \<and>
           map_option nn np = Some (nn d)))"
  by (auto simp: root_make_node_unfold main_unfold split: option.splits if_splits)

theorem C4_root_composes_witness:
  "root_make_node example_i386 example_callees 7 =
     (ESUCCESS, Some \<lparr>nn_stat_st_ino = 0x434F5250,
                       nn = [proclist_make_node example_callees 7,
                             rootdir_make_node example_callees 7]\<rparr>) \<and>
   main example_i386 example_callees =
     Serving (main_defaults example_i386)
       (Some \<lparr>nn_stat_st_ino = 0x434F5250,
               nn = [proclist_make_node example_callees 7,
                     rootdir_make_node example_callees 7]\<rparr>) \<and>
   dircat_make_node example_callees
       [proclist_make_node example_callees 7, rootdir_make_node example_callees 7] 2 =
     Some \<lparr>nn_stat_st_ino = 0, nn = [proclist_make_node example_callees 7,
                                      rootdir_make_node example_callees 7]\<rparr>"
proof -
  have r: "root_make_node example_i386 example_callees 7 =
     (ESUCCESS, Some \<lparr>nn_stat_st_ino = 0x434F5250,
                       nn = [proclist_make_node example_callees 7,
                             rootdir_make_node example_callees 7]\<rparr>)"
    by (simp add: callees_eval example_i386_def load_PROC_little)
  have m: "main example_i386 example_callees =
     Serving (main_defaults example_i386)
       (Some \<lparr>nn_stat_st_ino = 0x434F5250,
               nn = [proclist_make_node example_callees 7,
                     rootdir_make_node example_callees 7]\<rparr>)"
    by (simp add: callees_eval example_i386_def load_PROC_little)
  from C4_root_composes_proclist_then_rootdir
         [of example_i386 example_callees 7 _ "main_defaults example_i386"] r m
  show ?thesis by (simp add: example_callees_def)
qed

text \<open>
  Claim C5. When \<^verbatim>\<open>dircat_make_node\<close> yields no node, \<^verbatim>\<open>root_make_node\<close> returns
  \<^verbatim>\<open>ENOMEM\<close> and a null root (its result follows from that one call of
  \<^verbatim>\<open>dircat_make_node\<close>: there is no second attempt), and \<^verbatim>\<open>main\<close>, having come that
  far, exits with status 1 and the message ``Could not create the root node''. When
  \<^verbatim>\<open>dircat_make_node\<close> yields a node, \<^verbatim>\<open>root_make_node\<close> returns 0 and a root that is
  not null.
\<close>

theorem C5_root_allocation_failure:
  "(dircat_make_node m [proclist_make_node m pc, rootdir_make_node m pc] 2 = None \<longrightarrow>
      root_make_node e m pc = (ENOMEM, None)) \<and>
   (dircat_make_node m [proclist_make_node m pc, rootdir_make_node m pc] 2 \<noteq> None \<longrightarrow>
      fst (root_make_node e m pc) = ESUCCESS \<and> snd (root_make_node e m pc) \<noteq> None) \<and>
   (fst (argp_parse m (main_defaults e)) = ESUCCESS \<and> fst (ps_context_create m) = ESUCCESS \<and>
    task_get_bootstrap_port m \<noteq> MACH_PORT_NULL \<and>
    root_make_node e m (snd (ps_context_create m)) = (ENOMEM, None) \<longrightarrow>
      main e m = Exited 1 ENOMEM ''Could not create the root node'')"
  by (auto simp: root_make_node_unfold main_unfold split: option.splits)

theorem C5_root_allocation_witness:
  "root_make_node example_i386 example_callees_nomem 7 = (ENOMEM, None) \<and>
   main example_i386 example_callees_nomem = Exited 1 ENOMEM ''Could not create the root node'' \<and>
   fst (root_make_node example_i386 example_callees 7) = ESUCCESS \<and>
   snd (root_make_node example_i386 example_callees 7) \<noteq> None"
  using C5_root_allocation_failure [of example_callees_nomem 7 example_i386]
        C5_root_allocation_failure [of example_callees 7 example_i386]
  by (simp add: example_callees_def example_callees_nomem_def MACH_PORT_NULL_def)

subsection \<open>Run-time options\<close>

text \<open>
  Claim C2 says that no operation after start-up changes the five option variables. It
  fails: \<^verbatim>\<open>netfs_runtime_argp\<close> points to the start-up \<^verbatim>\<open>argp\<close>, so a run-time
  \<^verbatim>\<open>--compatible\<close> sets the clock tick, the stat mode (0400 before, 0444 after) and the
  self target (-1 before, 1 after), \<^verbatim>\<open>-k 7\<close> sets the kernel process id and
  \<^verbatim>\<open>-a daemon\<close> the anonymous owner.
\<close>

theorem C2_runtime_option_changes_policy:
  "netfs_set_option example_i386 (key_of CHR ''c'') None (main_defaults example_i386) =
     Some \<lparr>ret = ESUCCESS,
           opts = \<lparr>opt_clk_tck = 100, opt_stat_mode = 292, opt_fake_self = 1,
                   opt_kernel_pid = 2, opt_anon_owner = 0\<rparr>,
           argp_error = None\<rparr> \<and>
   main_defaults example_i386 =
     \<lparr>opt_clk_tck = 100, opt_stat_mode = 256, opt_fake_self = -1,
      opt_kernel_pid = 2, opt_anon_owner = 0\<rparr> \<and>
   netfs_set_option example_i386 (key_of CHR ''k'') (Some ''7'') (main_defaults example_i386) =
     Some \<lparr>ret = ESUCCESS,
           opts = \<lparr>opt_clk_tck = 100, opt_stat_mode = 256, opt_fake_self = -1,
                   opt_kernel_pid = 7, opt_anon_owner = 0\<rparr>,
           argp_error = None\<rparr> \<and>
   netfs_set_option example_i386 (key_of CHR ''a'') (Some ''daemon'')
       (main_defaults example_i386) =
     Some \<lparr>ret = ESUCCESS,
           opts = \<lparr>opt_clk_tck = 100, opt_stat_mode = 256, opt_fake_self = -1,
                   opt_kernel_pid = 2, opt_anon_owner = 1\<rparr>,
           argp_error = None\<rparr>"
  by (simp add: netfs_set_option_def netfs_runtime_argp_def argp_def call_parser_def
        parser_eval strtol_eval example_eval)

text \<open>
  Claim C2 as amended. Run-time option handling goes through the start-up \<^verbatim>\<open>argp\<close> and
  its parser \<^verbatim>\<open>argp_parser\<close>; a run-time option leaves all five option variables as
  they were whenever its key is none of \<^verbatim>\<open>-h\<close>, \<^verbatim>\<open>-s\<close>, \<^verbatim>\<open>-S\<close>, \<^verbatim>\<open>-k\<close>, \<^verbatim>\<open>-c\<close>,
  \<^verbatim>\<open>-a\<close>, and whenever the parser rejects its argument; and \<^verbatim>\<open>runtime_argp_parser\<close>
  never changes them.
\<close>

theorem C2_policy_changes_only_by_handled_options:
  "netfs_runtime_argp = argp \<and> parser netfs_runtime_argp = Argp_parser \<and>
   (\<forall>r. netfs_set_option e key arg s = Some r \<longrightarrow>
        key \<notin> key_of ` {CHR ''h'', CHR ''s'', CHR ''S'', CHR ''k'', CHR ''c'', CHR ''a''}
          \<or> argp_error r \<noteq> None \<longrightarrow>
        opts r = s) \<and>
   opts (runtime_argp_parser key arg s) = s"
  by (auto simp: netfs_set_option_def netfs_runtime_argp_def argp_def call_parser_def
        parser_eval runtime_argp_parser_def Let_def split: option.splits prod.splits if_splits)

theorem C2_policy_changes_witness:
  "netfs_set_option example_i386 NODEV_KEY None (main_defaults example_i386) =
     Some (unknown_key (main_defaults example_i386)) \<and>
   NODEV_KEY \<notin> key_of ` {CHR ''h'', CHR ''s'', CHR ''S'', CHR ''k'', CHR ''c'', CHR ''a''} \<and>
   opts (unknown_key (main_defaults example_i386)) = main_defaults example_i386 \<and>
   netfs_set_option example_i386 (key_of CHR ''h'') (Some ''0'') (main_defaults example_i386) =
     Some (raise_argp_error (main_defaults example_i386)
             ''--clk-tck: HZ should be a positive integer'') \<and>
   opts (raise_argp_error (main_defaults example_i386)
             ''--clk-tck: HZ should be a positive integer'') = main_defaults example_i386"
proof -
  have a: "netfs_set_option example_i386 NODEV_KEY None (main_defaults example_i386) =
     Some (unknown_key (main_defaults example_i386))"
    by (simp add: netfs_set_option_def netfs_runtime_argp_def argp_def call_parser_def
          argp_parser_def NODEV_KEY_def)
  have b: "netfs_set_option example_i386 (key_of CHR ''h'') (Some ''0'')
             (main_defaults example_i386) =
     Some (raise_argp_error (main_defaults example_i386)
             ''--clk-tck: HZ should be a positive integer'')"
    by (simp add: netfs_set_option_def netfs_runtime_argp_def argp_def call_parser_def
          argp_parser_def case_h_def strtol_eval)
  from C2_policy_changes_only_by_handled_options
         [of example_i386 NODEV_KEY None "main_defaults example_i386"]
       C2_policy_changes_only_by_handled_options
         [of example_i386 "key_of CHR ''h''" "Some ''0''" "main_defaults example_i386"]
       a b
  show ?thesis by (simp add: NODEV_KEY_def raise_argp_error_def)
qed

subsection \<open>strtol and the range of long\<close>

lemma snd_strtol: "snd (strtol e a b) = snd (strtol_unbounded a b)"
  by (simp add: strtol_def split: prod.splits)

lemma fst_strtol:
  "fst (strtol e a b) =
     (if fst (strtol_unbounded a b) > LONG_MAX e then LONG_MAX e
      else if fst (strtol_unbounded a b) < LONG_MIN e then LONG_MIN e
      else fst (strtol_unbounded a b))"
  by (simp add: strtol_def split: prod.splits)

lemma strtol_eq:
  "strtol_unbounded a b = (v, endp) \<Longrightarrow>
   strtol e a b = (if v > LONG_MAX e then LONG_MAX e
                   else if v < LONG_MIN e then LONG_MIN e else v, endp)"
  by (simp add: strtol_def)

lemma LONG_MAX_ge:
  assumes "32 \<le> LONG_BIT e"
  shows "2147483647 \<le> LONG_MAX e"
proof -
  have "(2::int) ^ 31 \<le> 2 ^ (LONG_BIT e - 1)"
    using assms by (intro power_increasing) auto
  then show ?thesis by (simp add: LONG_MAX_def)
qed

lemma LONG_MIN_le:
  assumes "32 \<le> LONG_BIT e"
  shows "LONG_MIN e \<le> - 2147483648"
proof -
  have "(2::int) ^ 31 \<le> 2 ^ (LONG_BIT e - 1)"
    using assms by (intro power_increasing) auto
  then show ?thesis by (simp add: LONG_MIN_def)
qed

lemma sint_word_of_int_32:
  "- 2147483648 \<le> v \<Longrightarrow> v < 2147483648 \<Longrightarrow> sint (word_of_int v :: 32 word) = v"
  by (simp add: signed_of_int signed_take_bit_int_eq_self)

lemma uint_word_of_int_32:
  "0 \<le> v \<Longrightarrow> v < 4294967296 \<Longrightarrow> uint (word_of_int v :: 32 word) = v"
  by (simp add: uint_word_of_int)

subsection \<open>The clock tick\<close>

text \<open>
  Claim C6 says that an accepted argument of \<^verbatim>\<open>-h\<close> becomes the clock-tick unit. It fails
  for a number too large for the variable: the whole of \<^verbatim>\<open>99999999999\<close> parses as a
  positive integer and is accepted, and the unit becomes 2147483647 where \<^verbatim>\<open>long\<close> has
  32 bits (\<^verbatim>\<open>strtol\<close> returns \<^verbatim>\<open>LONG_MAX\<close>) and 1215752191 where it has 64 (the
  assignment to an \<^verbatim>\<open>int\<close> keeps the low 32 bits).
\<close>

theorem C6_clk_tck_overflow:
  "strtol_unbounded ''99999999999'' 0 = (99999999999, []) \<and>
   argp_parser example_i386 (key_of CHR ''h'') (Some ''99999999999'') (main_defaults example_i386)
     = Some \<lparr>ret = ESUCCESS,
             opts = (main_defaults example_i386)\<lparr>opt_clk_tck := 2147483647\<rparr>,
             argp_error = None\<rparr> \<and>
   argp_parser example_x86_64 (key_of CHR ''h'') (Some ''99999999999'')
       (main_defaults example_x86_64)
     = Some \<lparr>ret = ESUCCESS,
             opts = (main_defaults example_x86_64)\<lparr>opt_clk_tck := 1215752191\<rparr>,
             argp_error = None\<rparr>"
  by (simp add: parser_eval strtol_eval example_eval)

text \<open>
  Claim C6 as amended. Let \<open>v\<close> be the integer \<^verbatim>\<open>strtol\<close> reads from the argument of
  \<^verbatim>\<open>-h\<close> in base 0 and \<open>endp\<close> what it leaves unread. The argument is accepted if and
  only if it is not empty, nothing is left unread and \<open>v\<close> is strictly positive. On
  acceptance, if \<open>v\<close> is below \<open>2 ^ 31\<close>, the clock-tick unit becomes \<open>v\<close> and nothing
  else changes. Otherwise \<^verbatim>\<open>argp_error\<close> is called with the message of \<^verbatim>\<open>--clk-tck\<close>
  and no option variable changes.
\<close>

theorem C6_clk_tck_accepts_positive:
  assumes "32 \<le> LONG_BIT e"
    and "strtol_unbounded arg 0 = (v, endp)"
    and "argp_parser e (key_of CHR ''h'') (Some arg) s = Some r"
  shows "(argp_error r = None \<longleftrightarrow> arg \<noteq> [] \<and> endp = [] \<and> 0 < v) \<and>
         (argp_error r = None \<and> v < 2 ^ 31 \<longrightarrow>
            opts r = s\<lparr>opt_clk_tck := word_of_int v\<rparr> \<and> sint (opt_clk_tck (opts r)) = v) \<and>
         (argp_error r \<noteq> None \<longrightarrow>
            argp_error r = Some ''--clk-tck: HZ should be a positive integer'' \<and> opts r = s) \<and>
         ret r = ESUCCESS"
proof -
  note mx = LONG_MAX_ge [OF assms(1)] and mn = LONG_MIN_le [OF assms(1)]
  have r: "r = case_h e arg s"
    using assms(3) by (simp add: argp_parser_def)
  show ?thesis
    using mx mn
    by (auto simp: r case_h_def strtol_eq [OF assms(2)] returned_def raise_argp_error_def
                   sint_word_of_int_32)
qed

theorem C6_clk_tck_witness:
  "(32::nat) \<le> LONG_BIT example_i386 \<and>
   strtol_unbounded ''1000'' 0 = (1000, []) \<and>
   argp_parser example_i386 (key_of CHR ''h'') (Some ''1000'') (main_defaults example_i386)
     = Some (returned ((main_defaults example_i386)\<lparr>opt_clk_tck := 1000\<rparr>)) \<and>
   argp_error (returned ((main_defaults example_i386)\<lparr>opt_clk_tck := 1000\<rparr>)) = None \<and>
   sint (opt_clk_tck (opts (returned ((main_defaults example_i386)\<lparr>opt_clk_tck := 1000\<rparr>))))
     = 1000 \<and>
   strtol_unbounded ''12x'' 0 = (12, ''x'') \<and>
   argp_parser example_i386 (key_of CHR ''h'') (Some ''12x'') (main_defaults example_i386)
     = Some (raise_argp_error (main_defaults example_i386)
               ''--clk-tck: HZ should be a positive integer'') \<and>
   opts (raise_argp_error (main_defaults example_i386)
           ''--clk-tck: HZ should be a positive integer'') = main_defaults example_i386"
proof -
  let ?d = "main_defaults example_i386"
  let ?r = "returned (?d\<lparr>opt_clk_tck := 1000\<rparr>)"
  let ?r' = "raise_argp_error ?d ''--clk-tck: HZ should be a positive integer''"
  have a: "32 \<le> LONG_BIT example_i386" by (simp add: example_i386_def)
  have b: "strtol_unbounded ''1000'' 0 = (1000, [])" by code_simp
  have c: "argp_parser example_i386 (key_of CHR ''h'') (Some ''1000'') ?d = Some ?r"
    by code_simp
  have b': "strtol_unbounded ''12x'' 0 = (12, ''x'')" by code_simp
  have c': "argp_parser example_i386 (key_of CHR ''h'') (Some ''12x'') ?d = Some ?r'"
    by code_simp
  have ok: "argp_error ?r = None" by (simp add: returned_def)
  have small: "(1000::int) < 2 ^ 31" by simp
  from C6_clk_tck_accepts_positive [OF a b c] ok small
  have v: "sint (opt_clk_tck (opts ?r)) = 1000" by blast
  have bad: "argp_error ?r' \<noteq> None" by (simp add: raise_argp_error_def)
  from C6_clk_tck_accepts_positive [OF a b' c'] bad
  have u: "opts ?r' = ?d" by blast
  from a b c ok v b' c' u show ?thesis by blast
qed

subsection \<open>The anonymous owner\<close>

text \<open>
  Claim C7 says that an argument of \<^verbatim>\<open>-a\<close> that names no user and parses completely as
  a nonnegative integer becomes the anonymous owner's uid. It fails for a number too
  large: no user is called \<^verbatim>\<open>4294967296\<close>, the whole string parses as a nonnegative
  integer and is accepted, and the uid becomes 2147483647 where \<^verbatim>\<open>long\<close> has 32 bits and
  0 where it has 64.
\<close>

theorem C7_anon_owner_overflow:
  "getpwnam example_i386 ''4294967296'' = None \<and>
   strtol_unbounded ''4294967296'' 0 = (4294967296, []) \<and>
   argp_parser example_i386 (key_of CHR ''a'') (Some ''4294967296'') (main_defaults example_i386)
     = Some \<lparr>ret = ESUCCESS,
             opts = (main_defaults example_i386)\<lparr>opt_anon_owner := 2147483647\<rparr>,
             argp_error = None\<rparr> \<and>
   argp_parser example_x86_64 (key_of CHR ''a'') (Some ''4294967296'')
       ((main_defaults example_x86_64)\<lparr>opt_anon_owner := 1\<rparr>)
     = Some \<lparr>ret = ESUCCESS,
             opts = (main_defaults example_x86_64)\<lparr>opt_anon_owner := 0\<rparr>,
             argp_error = None\<rparr>"
  by (simp add: parser_eval strtol_eval example_eval)

text \<open>
  Claim C7 as amended. If the argument of \<^verbatim>\<open>-a\<close> names a user of the password
  database, the anonymous owner becomes that user's uid. Otherwise let \<open>v\<close> be the
  integer \<^verbatim>\<open>strtol\<close> reads from it in base 0 and \<open>endp\<close> what it leaves unread: the
  argument is accepted if and only if it is not empty, nothing is left unread and \<open>v\<close> is
  not negative; on acceptance, if \<open>v\<close> is representable both as a \<^verbatim>\<open>long\<close> and as a
  \<^verbatim>\<open>uid_t\<close>, the anonymous owner becomes \<open>v\<close> and nothing else changes; a rejected
  argument gives the error of \<^verbatim>\<open>--anonymous-owner\<close> and changes nothing. Before any
  option is parsed the anonymous owner is uid 0.
\<close>

theorem C7_anon_owner_name_or_uid:
  assumes "32 \<le> LONG_BIT e"
    and "strtol_unbounded arg 0 = (v, endp)"
    and "argp_parser e (key_of CHR ''a'') (Some arg) s = Some r"
  shows "(\<forall>pw_uid. getpwnam e arg = Some pw_uid \<longrightarrow>
            r = returned (s\<lparr>opt_anon_owner := pw_uid\<rparr>)) \<and>
         (getpwnam e arg = None \<longrightarrow>
            (argp_error r = None \<longleftrightarrow> arg \<noteq> [] \<and> endp = [] \<and> 0 \<le> v) \<and>
            (argp_error r = None \<and> v \<le> LONG_MAX e \<and> v < 2 ^ 32 \<longrightarrow>
               opts r = s\<lparr>opt_anon_owner := word_of_int v\<rparr> \<and>
               uint (opt_anon_owner (opts r)) = v) \<and>
            (argp_error r \<noteq> None \<longrightarrow>
               argp_error r =
                 Some ''--anonymous-owner: USER should be a user name or a numeric UID.'' \<and>
               opts r = s)) \<and>
         ret r = ESUCCESS \<and>
         opt_anon_owner (main_defaults e) = 0"
proof -
  note mx = LONG_MAX_ge [OF assms(1)] and mn = LONG_MIN_le [OF assms(1)]
  have r: "r = case_a e arg s"
    using assms(3) by (simp add: argp_parser_def)
  show ?thesis
    using mx mn
    by (auto simp: r case_a_def strtol_eq [OF assms(2)] returned_def raise_argp_error_def
                   uint_word_of_int_32 main_defaults_def OPT_ANON_OWNER_def
             split: option.splits)
qed

theorem C7_anon_owner_witness:
  "(32::nat) \<le> LONG_BIT example_i386 \<and>
   strtol_unbounded ''1000'' 0 = (1000, []) \<and>
   getpwnam example_i386 ''1000'' = None \<and>
   argp_parser example_i386 (key_of CHR ''a'') (Some ''1000'') (main_defaults example_i386)
     = Some (returned ((main_defaults example_i386)\<lparr>opt_anon_owner := 1000\<rparr>)) \<and>
   uint (opt_anon_owner (opts (returned ((main_defaults example_i386)\<lparr>opt_anon_owner := 1000\<rparr>))))
     = 1000 \<and>
   strtol_unbounded ''nobody'' 0 = (0, ''nobody'') \<and>
   getpwnam example_i386 ''nobody'' = Some 4294967294 \<and>
   argp_parser example_i386 (key_of CHR ''a'') (Some ''nobody'') (main_defaults example_i386)
     = Some (returned ((main_defaults example_i386)\<lparr>opt_anon_owner := 4294967294\<rparr>)) \<and>
   strtol_unbounded ''-2'' 0 = (- 2, []) \<and>
   getpwnam example_i386 ''-2'' = None \<and>
   argp_parser example_i386 (key_of CHR ''a'') (Some ''-2'') (main_defaults example_i386)
     = Some (raise_argp_error (main_defaults example_i386)
               ''--anonymous-owner: USER should be a user name or a numeric UID.'')"
proof -
  have a: "32 \<le> LONG_BIT example_i386" by (simp add: example_i386_def)
  have b: "strtol_unbounded ''1000'' 0 = (1000, [])" by (simp add: strtol_eval)
  have c: "argp_parser example_i386 (key_of CHR ''a'') (Some ''1000'')
             (main_defaults example_i386)
     = Some (returned ((main_defaults example_i386)\<lparr>opt_anon_owner := 1000\<rparr>))"
    by (simp add: parser_eval strtol_eval example_eval)
  have b': "strtol_unbounded ''nobody'' 0 = (0, ''nobody'')" by (simp add: strtol_eval)
  have c': "argp_parser example_i386 (key_of CHR ''a'') (Some ''nobody'')
             (main_defaults example_i386)
     = Some (returned ((main_defaults example_i386)\<lparr>opt_anon_owner := 4294967294\<rparr>))"
    by (simp add: parser_eval example_eval)
  have b'': "strtol_unbounded ''-2'' 0 = (- 2, [])" by (simp add: strtol_eval)
  have c'': "argp_parser example_i386 (key_of CHR ''a'') (Some ''-2'')
             (main_defaults example_i386)
     = Some (raise_argp_error (main_defaults example_i386)
               ''--anonymous-owner: USER should be a user name or a numeric UID.'')"
    by (simp add: parser_eval strtol_eval example_eval)
  from C7_anon_owner_name_or_uid [OF a b c] C7_anon_owner_name_or_uid [OF a b' c']
       C7_anon_owner_name_or_uid [OF a b'' c''] a b c b' c' b'' c''
  show ?thesis by (simp add: returned_def example_i386_def example_passwd_def)
qed

subsection \<open>The self target\<close>

lemma cases_keep_fake_self:
  "opt_fake_self (opts (case_h e a s)) = opt_fake_self s"
  "opt_fake_self (opts (case_s e a s)) = opt_fake_self s"
  "opt_fake_self (opts (case_k e a s)) = opt_fake_self s"
  "opt_fake_self (opts (case_a e a s)) = opt_fake_self s"
  "opt_fake_self (opts (unknown_key s)) = opt_fake_self s"
  by (simp_all add: case_h_def case_s_def case_k_def case_a_def returned_def
        raise_argp_error_def unknown_key_def split: prod.splits option.splits)

lemma argp_parser_keeps_fake_self:
  assumes "argp_parser e key arg s = Some r"
    and "key \<noteq> key_of CHR ''S''" and "key \<noteq> key_of CHR ''c''"
  shows "opt_fake_self (opts r) = opt_fake_self s"
  using assms
  by (auto simp: argp_parser_def cases_keep_fake_self split: if_splits)

lemma parse_options_keeps_fake_self:
  assumes "parse_options e kas s = Some s'"
    and "key_of CHR ''S'' \<notin> fst ` set kas" and "key_of CHR ''c'' \<notin> fst ` set kas"
  shows "opt_fake_self s' = opt_fake_self s"
  using assms
proof (induction kas arbitrary: s)
  case Nil
  then show ?case by simp
next
  case (Cons ka kas)
  obtain key arg where ka: "ka = (key, arg)" by (cases ka)
  from Cons.prems(1) obtain r where r: "argp_parser e key arg s = Some r"
    and rest: "parse_options e kas (opts r) = Some s'"
    by (auto simp: ka split: option.splits if_splits)
  have "opt_fake_self (opts r) = opt_fake_self s"
    using r Cons.prems(2,3) by (intro argp_parser_keeps_fake_self) (auto simp: ka)
  moreover have "opt_fake_self s' = opt_fake_self (opts r)"
    using rest Cons.prems(2,3) by (intro Cons.IH) auto
  ultimately show ?case by simp
qed

text \<open>
  Claim C8 says that an argument of \<^verbatim>\<open>-S\<close> that parses completely as an integer becomes
  the self target, and that the target stays -1 when \<^verbatim>\<open>-S\<close> is never given. The first
  fails for a number too large for a \<^verbatim>\<open>pid_t\<close> (\<^verbatim>\<open>99999999999\<close> is accepted and the
  target becomes 2147483647), the second when \<^verbatim>\<open>--compatible\<close> is given: it sets the
  target to 1 with no \<^verbatim>\<open>-S\<close> on the command line.
\<close>

theorem C8_fake_self_overflow_and_compatible:
  "strtol_unbounded ''99999999999'' 0 = (99999999999, []) \<and>
   argp_parser example_i386 (key_of CHR ''S'') (Some ''99999999999'') (main_defaults example_i386)
     = Some \<lparr>ret = ESUCCESS,
             opts = (main_defaults example_i386)\<lparr>opt_fake_self := 2147483647\<rparr>,
             argp_error = None\<rparr> \<and>
   parse_options example_i386 [(key_of CHR ''c'', None)] (main_defaults example_i386)
     = Some ((main_defaults example_i386)
               \<lparr>opt_clk_tck := 100, opt_stat_mode := 292, opt_fake_self := 1\<rparr>) \<and>
   sint (opt_fake_self (main_defaults example_i386)) = - 1"
  by (simp add: parser_eval strtol_eval example_eval)

text \<open>
  Claim C8 as amended. If \<^verbatim>\<open>-S\<close> has an argument that is not empty, that \<^verbatim>\<open>strtol\<close>
  reads completely in base 0, and whose value \<open>v\<close> is representable as a 32-bit
  \<^verbatim>\<open>pid_t\<close>, the self target becomes \<open>v\<close>; if \<^verbatim>\<open>-S\<close> has no argument, it becomes 1;
  before any option is parsed it is -1, and it is still -1 after any run of accepted
  options with neither \<^verbatim>\<open>-S\<close> nor \<^verbatim>\<open>-c\<close> among them.
\<close>

theorem C8_fake_self_target:
  assumes "32 \<le> LONG_BIT e"
  shows "(strtol_unbounded a 0 = (v, []) \<and> a \<noteq> [] \<and> - (2 ^ 31) \<le> v \<and> v < 2 ^ 31 \<longrightarrow>
            argp_parser e (key_of CHR ''S'') (Some a) s =
              Some (returned (s\<lparr>opt_fake_self := word_of_int v\<rparr>)) \<and>
            sint (word_of_int v :: pid_t) = v) \<and>
         argp_parser e (key_of CHR ''S'') None s = Some (returned (s\<lparr>opt_fake_self := 1\<rparr>)) \<and>
         sint (opt_fake_self (main_defaults e)) = - 1 \<and>
         (parse_options e kas (main_defaults e) = Some s' \<and>
          key_of CHR ''S'' \<notin> fst ` set kas \<and> key_of CHR ''c'' \<notin> fst ` set kas \<longrightarrow>
            sint (opt_fake_self s') = - 1)"
proof -
  note mx = LONG_MAX_ge [OF assms(1)] and mn = LONG_MIN_le [OF assms(1)]
  have d: "sint (opt_fake_self (main_defaults e)) = - 1"
    by (simp add: main_defaults_def OPT_FAKE_SELF_def)
  have given: "argp_parser e (key_of CHR ''S'') (Some a) s =
                 Some (returned (s\<lparr>opt_fake_self := word_of_int v\<rparr>)) \<and>
               sint (word_of_int v :: pid_t) = v"
    if "strtol_unbounded a 0 = (v, [])" "a \<noteq> []" "- (2 ^ 31) \<le> v" "v < 2 ^ 31"
    using that mx mn
    by (simp add: argp_parser_def case_S_def strtol_eq [OF that(1)] sint_word_of_int_32)
  have bare: "argp_parser e (key_of CHR ''S'') None s =
                Some (returned (s\<lparr>opt_fake_self := 1\<rparr>))"
    by (simp add: argp_parser_def case_S_def)
  have never: "sint (opt_fake_self s') = - 1"
    if "parse_options e kas (main_defaults e) = Some s'"
       "key_of CHR ''S'' \<notin> fst ` set kas" "key_of CHR ''c'' \<notin> fst ` set kas"
    using parse_options_keeps_fake_self [OF that] d by simp
  show ?thesis using d given bare never by blast
qed

theorem C8_fake_self_witness:
  "(32::nat) \<le> LONG_BIT example_i386 \<and>
   strtol_unbounded ''42'' 0 = (42, []) \<and>
   argp_parser example_i386 (key_of CHR ''S'') (Some ''42'') (main_defaults example_i386)
     = Some (returned ((main_defaults example_i386)\<lparr>opt_fake_self := 42\<rparr>)) \<and>
   parse_options example_i386 [(key_of CHR ''k'', Some ''3''), (key_of CHR ''h'', Some ''60'')]
       (main_defaults example_i386)
     = Some ((main_defaults example_i386)\<lparr>opt_kernel_pid := 3, opt_clk_tck := 60\<rparr>) \<and>
   sint (opt_fake_self ((main_defaults example_i386)\<lparr>opt_kernel_pid := 3, opt_clk_tck := 60\<rparr>))
     = - 1"
proof -
  have a: "32 \<le> LONG_BIT example_i386" by (simp add: example_i386_def)
  have b: "strtol_unbounded ''42'' 0 = (42, [])" by (simp add: strtol_eval)
  have p: "parse_options example_i386
             [(key_of CHR ''k'', Some ''3''), (key_of CHR ''h'', Some ''60'')]
             (main_defaults example_i386)
     = Some ((main_defaults example_i386)\<lparr>opt_kernel_pid := 3, opt_clk_tck := 60\<rparr>)"
    by (simp add: parser_eval strtol_eval example_eval)
  from C8_fake_self_target [OF a, of "''42''" 42 "main_defaults example_i386"
         "[(key_of CHR ''k'', Some ''3''), (key_of CHR ''h'', Some ''60'')]"
         "(main_defaults example_i386)\<lparr>opt_kernel_pid := 3, opt_clk_tck := 60\<rparr>"] a b p
  show ?thesis by simp
qed

subsection \<open>Printing a number and reading it back\<close>

lemma digit_val_char_of:
  assumes "0 \<le> d" and "d < (10::int)"
  shows "digit_val (char_of (48 + d)) = Some d"
proof -
  have "(48 + d) mod 256 = 48 + d" using assms by simp
  then show ?thesis using assms by (simp add: digit_val_def)
qed

lemma isspace_of_char:
  "isspace c \<longleftrightarrow> (of_char c :: int) \<in> {32, 9, 10, 11, 12, 13}"
proof -
  have "c = c' \<longleftrightarrow> (of_char c :: int) = of_char c'" for c'
    by simp
  then show ?thesis
    unfolding isspace_def by (simp only: ) auto
qed

lemma digit_char_facts:
  assumes "0 \<le> d" and "d < (10::int)"
  shows "\<not> isspace (char_of (48 + d))"
    and "char_of (48 + d) \<noteq> CHR ''-''"
    and "char_of (48 + d) \<noteq> CHR ''+''"
    and "char_of (48 + d) = CHR ''0'' \<longleftrightarrow> d = 0"
proof -
  have m: "(48 + d) mod 256 = 48 + d" using assms by simp
  have e: "c = c' \<longleftrightarrow> (of_char c :: int) = of_char c'" for c c'
    by simp
  show "\<not> isspace (char_of (48 + d))"
    using assms by (simp add: isspace_of_char m)
  show "char_of (48 + d) \<noteq> CHR ''-''"
    using assms by (simp add: e m)
  show "char_of (48 + d) \<noteq> CHR ''+''"
    using assms by (simp add: e m)
  show "char_of (48 + d) = CHR ''0'' \<longleftrightarrow> d = 0"
    using assms by (simp add: e m)
qed

lemma strtol_digits_format:
  "2 \<le> b \<Longrightarrow> b \<le> 10 \<Longrightarrow> 0 \<le> n \<Longrightarrow>
   strtol_digits b 0 (format_digits b n @ r) = strtol_digits b n r"
proof (induction b n arbitrary: r rule: format_digits.induct)
  case (1 b n)
  show ?case
  proof (cases "n < b")
    case True
    then have "format_digits b n = [char_of (48 + n)]"
      by (subst format_digits.simps) simp
    moreover have "digit_val (char_of (48 + n)) = Some n"
      using True "1.prems" by (intro digit_val_char_of) auto
    ultimately show ?thesis using True by simp
  next
    case False
    let ?c = "char_of (48 + n mod b)"
    have f: "format_digits b n = format_digits b (n div b) @ [?c]"
      using False "1.prems" by (subst format_digits.simps) simp
    have d: "digit_val ?c = Some (n mod b)"
      using "1.prems" by (intro digit_val_char_of) (auto intro: order.strict_trans2 [of _ b])
    have q: "0 \<le> n div b"
      using "1.prems" by (simp add: pos_imp_zdiv_nonneg_iff)
    have "strtol_digits b 0 (format_digits b n @ r)
            = strtol_digits b 0 (format_digits b (n div b) @ (?c # r))"
      by (simp add: f)
    also have "\<dots> = strtol_digits b (n div b) (?c # r)"
      using False "1.prems" q by (intro "1.IH") auto
    also have "\<dots> = strtol_digits b (n div b * b + n mod b) r"
      using d "1.prems" by simp
    also have "n div b * b + n mod b = n" by simp
    finally show ?thesis .
  qed
qed

lemma format_digits_head:
  "2 \<le> b \<Longrightarrow> b \<le> 10 \<Longrightarrow> 0 \<le> n \<Longrightarrow>
   \<exists>d t. format_digits b n = char_of (48 + d) # t \<and> 0 \<le> d \<and> d < (10::int) \<and>
          (0 < n \<longrightarrow> 0 < d)"
proof (induction b n rule: format_digits.induct)
  case (1 b n)
  show ?case
  proof (cases "n < b")
    case True
    then have "format_digits b n = [char_of (48 + n)]"
      by (subst format_digits.simps) simp
    then show ?thesis using True "1.prems" by (intro exI [of _ n] exI [of _ "[]"]) simp
  next
    case False
    have f: "format_digits b n = format_digits b (n div b) @ [char_of (48 + n mod b)]"
      using False "1.prems" by (subst format_digits.simps) simp
    have q: "0 < n div b"
      using False "1.prems" by (simp add: pos_imp_zdiv_pos_iff)
    from False "1.prems" q obtain d t
      where "format_digits b (n div b) = char_of (48 + d) # t" "0 \<le> d" "d < (10::int)" "0 < d"
      using "1.IH" by force
    then show ?thesis by (intro exI [of _ d] exI [of _ "t @ [char_of (48 + n mod b)]"]) (simp add: f)
  qed
qed

lemma length_format_digits:
  "2 \<le> b \<Longrightarrow> 0 \<le> n \<Longrightarrow> n < b ^ k \<Longrightarrow> 0 < k \<Longrightarrow> length (format_digits b n) \<le> k"
proof (induction b n arbitrary: k rule: format_digits.induct)
  case (1 b n)
  show ?case
  proof (cases "n < b")
    case True
    then have "format_digits b n = [char_of (48 + n)]"
      by (subst format_digits.simps) simp
    then show ?thesis using \<open>0 < k\<close> by simp
  next
    case False
    have f: "format_digits b n = format_digits b (n div b) @ [char_of (48 + n mod b)]"
      using False \<open>2 \<le> b\<close> by (subst format_digits.simps) simp
    obtain j where k: "k = Suc j"
      using \<open>0 < k\<close> by (cases k) simp_all
    have "j \<noteq> 0"
    proof
      assume "j = 0"
      then have "n < b" using \<open>n < b ^ k\<close> by (simp add: k)
      with False show False by simp
    qed
    then have j: "0 < j" by simp
    have bk: "b ^ k = b ^ j * b" by (simp add: k)
    have dm: "n div b * b + n mod b = n" by simp
    have md: "0 \<le> n mod b" using \<open>2 \<le> b\<close> by simp
    have "n div b * b \<le> n" using dm md by linarith
    then have "n div b * b < b ^ j * b" using \<open>n < b ^ k\<close> bk by linarith
    moreover have "0 \<le> b" using \<open>2 \<le> b\<close> by simp
    ultimately have lt: "n div b < b ^ j"
      by (rule mult_right_less_imp_less)
    have ge: "0 \<le> n div b"
      using \<open>2 \<le> b\<close> \<open>0 \<le> n\<close> by (simp add: pos_imp_zdiv_nonneg_iff)
    have c: "\<not> (n < b \<or> b < 2)" using False \<open>2 \<le> b\<close> by simp
    have "length (format_digits b (n div b)) \<le> j"
      using c \<open>2 \<le> b\<close> ge lt j by (rule "1.IH")
    then show ?thesis by (simp add: f k)
  qed
qed

lemma format_digits_nonempty:
  "2 \<le> b \<Longrightarrow> b \<le> 10 \<Longrightarrow> 0 \<le> n \<Longrightarrow> format_digits b n \<noteq> []"
  using format_digits_head [of b n] by auto

lemma strtol_digits_format_all:
  "2 \<le> b \<Longrightarrow> b \<le> 10 \<Longrightarrow> 0 \<le> n \<Longrightarrow> strtol_digits b 0 (format_digits b n) = (n, [])"
  using strtol_digits_format [of b n "[]"] by simp

lemma dropWhile_isspace_digit:
  "0 \<le> d \<Longrightarrow> d < (10::int) \<Longrightarrow>
   dropWhile isspace (char_of (48 + d) # t) = char_of (48 + d) # t"
  by (simp add: digit_char_facts)

lemma strtol_sign_digit:
  "0 \<le> d \<Longrightarrow> d < (10::int) \<Longrightarrow>
   strtol_sign (char_of (48 + d) # t) = (False, char_of (48 + d) # t)"
  by (simp add: strtol_sign_def digit_char_facts)

lemma strtol_prefix_decimal:
  "0 < d \<Longrightarrow> d < (10::int) \<Longrightarrow>
   strtol_prefix 0 (char_of (48 + d) # t) = (10, char_of (48 + d) # t, False)"
  by (cases t) (simp_all add: strtol_prefix_def digit_char_facts)

lemma strtol_prefix_octal: "strtol_prefix 8 s = (8, s, False)"
  by (simp add: strtol_prefix_def split: list.splits)

lemma char_of_48: "char_of (48::int) = CHR ''0''"
proof -
  have "(of_char (char_of (48::int)) :: int) = of_char CHR ''0''" by simp
  then show ?thesis by (simp only: of_char_eq_iff)
qed

lemma format_digits_zero: "2 \<le> b \<Longrightarrow> format_digits b 0 = ''0''"
  by (subst format_digits.simps) (simp add: char_of_48)

lemma strtol_unbounded_decimal:
  assumes "0 \<le> n"
  shows "strtol_unbounded (format_digits 10 n) 0 = (n, [])"
proof (cases "n = 0")
  case True
  then show ?thesis
    by (simp add: format_digits_zero strtol_unbounded_def strtol_sign_def strtol_prefix_def
          digit_val_def isspace_def)
next
  case False
  with assms have pos: "0 < n" by simp
  from format_digits_head [of 10 n] pos obtain d :: int and t
    where f: "format_digits 10 n = char_of (48 + d) # t" and d: "0 < d" "d < 10" "0 \<le> d"
    by auto
  have dg: "strtol_digits 10 0 (char_of (48 + d) # t) = (n, [])"
    using strtol_digits_format_all [of 10 n] assms by (simp add: f)
  show ?thesis
    unfolding strtol_unbounded_def f
    using d dg
    by (simp add: digit_char_facts strtol_sign_digit strtol_prefix_decimal
             del: strtol_digits.simps)
qed

lemma strtol_unbounded_negative:
  assumes "0 < n"
  shows "strtol_unbounded (CHR ''-'' # format_digits 10 n) 0 = (- n, [])"
proof -
  from format_digits_head [of 10 n] assms obtain d :: int and t
    where f: "format_digits 10 n = char_of (48 + d) # t" and d: "0 < d" "d < 10" "0 \<le> d"
    by auto
  have dg: "strtol_digits 10 0 (char_of (48 + d) # t) = (n, [])"
    using strtol_digits_format_all [of 10 n] assms by (simp add: f)
  show ?thesis
    unfolding strtol_unbounded_def f
    using d dg
    by (simp add: isspace_def strtol_sign_def strtol_prefix_decimal
             del: strtol_digits.simps)
qed

lemma strtol_unbounded_octal:
  assumes "0 \<le> n"
  shows "strtol_unbounded (format_digits 8 n) 8 = (n, [])"
proof -
  from format_digits_head [of 8 n] assms obtain d :: int and t
    where f: "format_digits 8 n = char_of (48 + d) # t" and d: "0 \<le> d" "d < 10"
    by auto
  have dg: "strtol_digits 8 0 (char_of (48 + d) # t) = (n, [])"
    using strtol_digits_format_all [of 8 n] assms by (simp add: f)
  show ?thesis
    unfolding strtol_unbounded_def f
    using d dg
    by (simp add: digit_char_facts strtol_sign_digit strtol_prefix_octal
             del: strtol_digits.simps)
qed

lemma strtol_unbounded_format_d: "strtol_unbounded (format_d w) 0 = (sint w, [])"
  using strtol_unbounded_decimal [of "sint w"] strtol_unbounded_negative [of "- sint w"]
  by (simp add: format_d_def)

lemma strtol_unbounded_format_o: "strtol_unbounded (format_o w) 8 = (uint w, [])"
  using strtol_unbounded_octal [of "uint w"] by (simp add: format_o_def)

lemma strtol_format_d:
  assumes "32 \<le> LONG_BIT e"
  shows "strtol e (format_d w) 0 = (sint w, [])"
proof -
  have "sint w < 2 ^ 31" "- (2 ^ 31) \<le> sint w"
    using sint_lt [of w] sint_ge [of w] by simp_all
  then show ?thesis
    using LONG_MAX_ge [OF assms] LONG_MIN_le [OF assms]
    by (simp add: strtol_eq [OF strtol_unbounded_format_d])
qed

lemma format_d_nonempty: "format_d w \<noteq> []"
  using format_digits_nonempty [of 10 "sint w"] by (simp add: format_d_def)

lemma format_o_nonempty: "format_o w \<noteq> []"
  using format_digits_nonempty [of 8 "uint w"] by (simp add: format_o_def)

lemma length_format_d: "length (format_d w) \<le> 11"
proof -
  have b: "sint w < 2 ^ 31" "- (2 ^ 31) \<le> sint w"
    using sint_lt [of w] sint_ge [of w] by simp_all
  have "length (format_digits 10 \<bar>sint w\<bar>) \<le> 10"
    using b by (intro length_format_digits) auto
  then show ?thesis by (auto simp: format_d_def abs_if)
qed

lemma length_format_o: "length (format_o w) \<le> 11"
proof -
  have "uint w < 2 ^ 32" using uint_lt2p [of w] by simp
  then have "length (format_digits 8 (uint w)) \<le> 11"
    by (intro length_format_digits) auto
  then show ?thesis by (simp add: format_o_def)
qed

subsection \<open>The words of netfs_append_args\<close>

lemma snprintf_short: "length str < 80 \<Longrightarrow> snprintf 80 str = str"
  by (simp add: snprintf_def)

lemma FOPT_appends:
  assumes "\<not> realloc_fails e argz" and "length str < 80"
  shows "FOPT e differs str (ESUCCESS, argz) = (ESUCCESS, argz @ (if differs then [str] else []))"
  using assms by (simp add: FOPT_def argz_add_def snprintf_short)

lemma main_defaults_fields:
  "opt_stat_mode (main_defaults e) = 256"
  "opt_fake_self (main_defaults e) = - 1"
  "opt_kernel_pid (main_defaults e) = 2"
  "opt_anon_owner (main_defaults e) = 0"
  "opt_clk_tck (main_defaults e) = word_of_int (sysconf_CLK_TCK e)"
  by (simp_all add: main_defaults_def OPT_STAT_MODE_def OPT_FAKE_SELF_def OPT_KERNEL_PID_def
        OPT_ANON_OWNER_def OPT_CLK_TCK_def)

lemma sint_eq_iff_32:
  "- (2 ^ 31) \<le> k \<Longrightarrow> k < 2 ^ 31 \<Longrightarrow> sint (w :: 32 word) = k \<longleftrightarrow> w = word_of_int k"
  by (auto simp: sint_word_of_int_32)

lemma uint_eq_iff_32:
  "0 \<le> k \<Longrightarrow> k < 2 ^ 32 \<Longrightarrow> uint (w :: 32 word) = k \<longleftrightarrow> w = word_of_int k"
  by (auto simp: uint_word_of_int_32)

lemma differs_clk_tck:
  assumes "- (2 ^ 31) \<le> sysconf_CLK_TCK e" and "sysconf_CLK_TCK e < 2 ^ 31"
  shows "sint (opt_clk_tck s) \<noteq> OPT_CLK_TCK e \<longleftrightarrow> opt_clk_tck s \<noteq> opt_clk_tck (main_defaults e)"
  using sint_eq_iff_32 [OF assms, of "opt_clk_tck s"]
  by (simp add: main_defaults_fields OPT_CLK_TCK_def)

lemma differs_others:
  "uint (opt_stat_mode s) \<noteq> OPT_STAT_MODE \<longleftrightarrow> opt_stat_mode s \<noteq> opt_stat_mode (main_defaults e)"
  "sint (opt_fake_self s) \<noteq> OPT_FAKE_SELF \<longleftrightarrow> opt_fake_self s \<noteq> opt_fake_self (main_defaults e)"
  "uint (opt_anon_owner s) \<noteq> OPT_ANON_OWNER \<longleftrightarrow> opt_anon_owner s \<noteq> opt_anon_owner (main_defaults e)"
  "sint (opt_kernel_pid s) \<noteq> OPT_KERNEL_PID \<longleftrightarrow> opt_kernel_pid s \<noteq> opt_kernel_pid (main_defaults e)"
proof -
  note u = uint_eq_iff_32 and i = sint_eq_iff_32
  show "uint (opt_stat_mode s) \<noteq> OPT_STAT_MODE \<longleftrightarrow>
          opt_stat_mode s \<noteq> opt_stat_mode (main_defaults e)"
    by (simp add: main_defaults_fields OPT_STAT_MODE_def u)
  show "sint (opt_fake_self s) \<noteq> OPT_FAKE_SELF \<longleftrightarrow>
          opt_fake_self s \<noteq> opt_fake_self (main_defaults e)"
    by (simp add: main_defaults_fields OPT_FAKE_SELF_def i)
  show "uint (opt_anon_owner s) \<noteq> OPT_ANON_OWNER \<longleftrightarrow>
          opt_anon_owner s \<noteq> opt_anon_owner (main_defaults e)"
    by (simp add: main_defaults_fields OPT_ANON_OWNER_def u)
  show "sint (opt_kernel_pid s) \<noteq> OPT_KERNEL_PID \<longleftrightarrow>
          opt_kernel_pid s \<noteq> opt_kernel_pid (main_defaults e)"
    by (simp add: main_defaults_fields OPT_KERNEL_PID_def i)
qed

lemma netfs_append_args_words:
  assumes mem: "\<forall>z. \<not> realloc_fails e z"
    and clk: "- (2 ^ 31) \<le> sysconf_CLK_TCK e" "sysconf_CLK_TCK e < 2 ^ 31"
  shows "netfs_append_args e s argz = netfs_append_std_options e (argz @ knob_words e s)"
proof -
  have l: "length (''--clk-tck='' @ format_d (opt_clk_tck s)) < 80"
          "length (''--stat-mode='' @ format_o (opt_stat_mode s)) < 80"
          "length (''--fake-self='' @ format_d (opt_fake_self s)) < 80"
          "length (''--anonymous-owner='' @ format_d (opt_anon_owner s)) < 80"
          "length (''--kernel-process='' @ format_d (opt_kernel_pid s)) < 80"
    using length_format_d [of "opt_clk_tck s"] length_format_o [of "opt_stat_mode s"]
          length_format_d [of "opt_fake_self s"] length_format_d [of "opt_anon_owner s"]
          length_format_d [of "opt_kernel_pid s"]
    by simp_all
  have f: "FOPT e d str (ESUCCESS, z) = (ESUCCESS, z @ (if d then [str] else []))"
    if "length str < 80" for d str z
    using mem that by (intro FOPT_appends) auto
  show ?thesis
    unfolding netfs_append_args_def Let_def knob_words_def
      differs_clk_tck [OF clk] differs_others [of s e]
      f [OF l(1)] f [OF l(2)] f [OF l(3)] f [OF l(4)] f [OF l(5)]
    by simp
qed

subsection \<open>Reading the words back\<close>

lemma long_option_knobs:
  "long_option common_options (''--clk-tck='' @ x) = Some (key_of CHR ''h'', Some x)"
  "long_option common_options (''--stat-mode='' @ x) = Some (key_of CHR ''s'', Some x)"
  "long_option common_options (''--fake-self='' @ x) = Some (key_of CHR ''S'', Some x)"
  "long_option common_options (''--anonymous-owner='' @ x) = Some (key_of CHR ''a'', Some x)"
  "long_option common_options (''--kernel-process='' @ x) = Some (key_of CHR ''k'', Some x)"
  by (simp_all add: long_option_def common_options_def)

lemma parse_words_Nil: "parse_words e [] s = Some s"
  by (simp add: parse_words_def)

lemma parse_words_Cons:
  "parse_words e (w # ws) s =
     (case long_option common_options w of
        None \<Rightarrow> None
      | Some (key, arg) \<Rightarrow>
          (case argp_parser e key arg s of
             None \<Rightarrow> None
           | Some r \<Rightarrow> if ret r = ESUCCESS \<and> argp_error r = None
                       then parse_words e ws (opts r) else None))"
  by (cases "long_option common_options w"; cases "those (map (long_option common_options) ws)")
     (auto simp: parse_words_def split: option.splits)

lemma parse_words_append:
  "parse_words e (xs @ ys) s =
     (case parse_words e xs s of None \<Rightarrow> None | Some s' \<Rightarrow> parse_words e ys s')"
proof (induction xs arbitrary: s)
  case Nil
  then show ?case by (simp add: parse_words_Nil)
next
  case (Cons w xs)
  show ?case
    by (simp add: parse_words_Cons Cons.IH split: option.splits prod.splits)
qed

lemma parse_one_word:
  assumes "long_option common_options w = Some (key, arg)"
    and "argp_parser e key arg t = Some (returned t')"
  shows "parse_words e [w] t = Some t'"
  using assms by (simp add: parse_words_Cons parse_words_Nil returned_def)

lemma reparse_clk_tck:
  assumes "32 \<le> LONG_BIT e" and "0 < sint w"
  shows "parse_words e [''--clk-tck='' @ format_d w] t = Some (t\<lparr>opt_clk_tck := w\<rparr>)"
proof (rule parse_one_word [OF long_option_knobs(1)])
  show "argp_parser e (key_of CHR ''h'') (Some (format_d w)) t
          = Some (returned (t\<lparr>opt_clk_tck := w\<rparr>))"
    using assms(2)
    by (simp add: argp_parser_def case_h_def strtol_format_d [OF assms(1)] format_d_nonempty)
qed

lemma uint_stat_mode_small:
  fixes w :: "32 word"
  assumes "w AND NOT 4095 = 0"
  shows "uint w \<le> 4095"
proof -
  have "w = w AND 4095"
  proof -
    have "w = (w AND 4095) OR (w AND NOT 4095)"
      by (simp flip: bit.conj_disj_distrib)
    then show ?thesis using assms by simp
  qed
  then have "uint w = uint (w AND 4095)" by simp
  also have "\<dots> \<le> uint (4095 :: 32 word)"
    by (rule word_and_le1 [THEN word_le_def [THEN iffD1]])
  finally show ?thesis by simp
qed

lemma reparse_stat_mode:
  assumes "32 \<le> LONG_BIT e" and "w AND NOT 4095 = 0"
  shows "parse_words e [''--stat-mode='' @ format_o w] t = Some (t\<lparr>opt_stat_mode := w\<rparr>)"
proof (rule parse_one_word [OF long_option_knobs(2)])
  have u: "uint w \<le> 4095" by (rule uint_stat_mode_small [OF assms(2)])
  have z: "0 \<le> uint w" by simp
  have "\<not> uint w < LONG_MIN e" "\<not> LONG_MAX e < uint w"
    using u z LONG_MAX_ge [OF assms(1)] LONG_MIN_le [OF assms(1)] by linarith+
  then have "strtol e (format_o w) 8 = (uint w, [])"
    by (simp add: strtol_eq [OF strtol_unbounded_format_o])
  then show "argp_parser e (key_of CHR ''s'') (Some (format_o w)) t
          = Some (returned (t\<lparr>opt_stat_mode := w\<rparr>))"
    using assms(2) by (simp add: argp_parser_def case_s_def format_o_nonempty)
qed

lemma reparse_fake_self:
  assumes "32 \<le> LONG_BIT e"
  shows "parse_words e [''--fake-self='' @ format_d w] t = Some (t\<lparr>opt_fake_self := w\<rparr>)"
proof (rule parse_one_word [OF long_option_knobs(3)])
  show "argp_parser e (key_of CHR ''S'') (Some (format_d w)) t
          = Some (returned (t\<lparr>opt_fake_self := w\<rparr>))"
    by (simp add: argp_parser_def case_S_def strtol_format_d [OF assms(1)] format_d_nonempty)
qed

lemma reparse_anon_owner:
  assumes "32 \<le> LONG_BIT e" and "0 \<le> sint w" and "getpwnam e (format_d w) = None"
  shows "parse_words e [''--anonymous-owner='' @ format_d w] t = Some (t\<lparr>opt_anon_owner := w\<rparr>)"
proof (rule parse_one_word [OF long_option_knobs(4)])
  show "argp_parser e (key_of CHR ''a'') (Some (format_d w)) t
          = Some (returned (t\<lparr>opt_anon_owner := w\<rparr>))"
    using assms(2,3)
    by (simp add: argp_parser_def case_a_def strtol_format_d [OF assms(1)] format_d_nonempty)
qed

lemma reparse_kernel_pid:
  assumes "32 \<le> LONG_BIT e" and "0 \<le> sint (opt_kernel_pid t)"
  shows "parse_words e [''--kernel-process='' @ format_d w] t = Some (t\<lparr>opt_kernel_pid := w\<rparr>)"
proof (rule parse_one_word [OF long_option_knobs(5)])
  show "argp_parser e (key_of CHR ''k'') (Some (format_d w)) t
          = Some (returned (t\<lparr>opt_kernel_pid := w\<rparr>))"
    using assms(2)
    by (simp add: argp_parser_def case_k_def strtol_format_d [OF assms(1)] format_d_nonempty)
qed


lemma knob_step:
  assumes "parse_words e [w] t = Some t'"
  shows "parse_words e (if differs then [w] else []) t = Some (if differs then t' else t)"
  using assms by (simp add: parse_words_Nil)

lemma parse_knob_words:
  assumes lb: "32 \<le> LONG_BIT e" and ok: "reparsable e s"
  shows "parse_words e (knob_words e s) (main_defaults e) = Some s"
proof -
  let ?d = "main_defaults e"
  let ?t1 = "?d\<lparr>opt_clk_tck := opt_clk_tck s\<rparr>"
  let ?t2 = "?t1\<lparr>opt_stat_mode := opt_stat_mode s\<rparr>"
  let ?t3 = "?t2\<lparr>opt_fake_self := opt_fake_self s\<rparr>"
  let ?t4 = "?t3\<lparr>opt_anon_owner := opt_anon_owner s\<rparr>"
  let ?t5 = "?t4\<lparr>opt_kernel_pid := opt_kernel_pid s\<rparr>"
  from ok have c1: "opt_clk_tck s = opt_clk_tck ?d \<or> 0 < sint (opt_clk_tck s)"
    and c2: "opt_stat_mode s AND NOT 4095 = 0"
    and c4: "opt_anon_owner s = 0 \<or>
             0 \<le> sint (opt_anon_owner s) \<and> getpwnam e (format_d (opt_anon_owner s)) = None"
    by (simp_all add: reparsable_def)
  have s1: "parse_words e
              (if opt_clk_tck s \<noteq> opt_clk_tck ?d
               then [''--clk-tck='' @ format_d (opt_clk_tck s)] else []) ?d = Some ?t1"
    using c1 reparse_clk_tck [OF lb, of "opt_clk_tck s" ?d]
    by (auto simp: parse_words_Nil)
  have s2: "parse_words e
              (if opt_stat_mode s \<noteq> opt_stat_mode ?d
               then [''--stat-mode='' @ format_o (opt_stat_mode s)] else []) ?t1 = Some ?t2"
    using reparse_stat_mode [OF lb c2, of ?t1]
    by (auto simp: parse_words_Nil)
  have s3: "parse_words e
              (if opt_fake_self s \<noteq> opt_fake_self ?d
               then [''--fake-self='' @ format_d (opt_fake_self s)] else []) ?t2 = Some ?t3"
    using reparse_fake_self [OF lb, of "opt_fake_self s" ?t2]
    by (auto simp: parse_words_Nil)
  have s4: "parse_words e
              (if opt_anon_owner s \<noteq> opt_anon_owner ?d
               then [''--anonymous-owner='' @ format_d (opt_anon_owner s)] else []) ?t3
            = Some ?t4"
    using c4 reparse_anon_owner [OF lb, of "opt_anon_owner s" ?t3]
    by (auto simp: parse_words_Nil main_defaults_fields)
  have k: "0 \<le> sint (opt_kernel_pid ?t4)"
    by (simp add: main_defaults_fields)
  have s5: "parse_words e
              (if opt_kernel_pid s \<noteq> opt_kernel_pid ?d
               then [''--kernel-process='' @ format_d (opt_kernel_pid s)] else []) ?t4
            = Some ?t5"
    using reparse_kernel_pid [OF lb k, of "opt_kernel_pid s"]
    by (auto simp: parse_words_Nil)
  have "parse_words e (knob_words e s) ?d = Some ?t5"
    unfolding knob_words_def
    by (simp only: parse_words_append s1 s2 s3 s4 s5 option.simps)
  moreover have "?t5 = s"
    by (rule options.equality) simp_all
  ultimately show ?thesis by simp
qed

subsection \<open>netfs_append_args and the parser\<close>

text \<open>
  Claim C10 says that for every configuration \<^verbatim>\<open>netfs_append_args\<close> appends one word
  per option variable that differs from its default, and that the parser reads each
  word back to the same value. It fails in four ways. (1) A uid from \<open>2 ^ 31\<close> on is
  printed with \<^verbatim>\<open>%d\<close> as a negative number: after \<^verbatim>\<open>-a nobody\<close> (uid 4294967294) the
  word is \<^verbatim>\<open>--anonymous-owner=-2\<close>, which the parser rejects. (2) The parser looks a
  printed uid up as a user name first: where a user is called \<^verbatim>\<open>1000\<close> and has uid 5,
  the word \<^verbatim>\<open>--anonymous-owner=1000\<close> reads back as uid 5. (3) A clock tick that is not
  positive (0 after \<^verbatim>\<open>-h 4294967296\<close> with a 64-bit \<^verbatim>\<open>long\<close>) and a stat mode beyond
  07777 are printed and then rejected. (4) When \<^verbatim>\<open>argz_add\<close> runs out of memory nothing
  is appended for a variable that differs.
\<close>

theorem C10_append_args_not_always_reparsed:
  "argp_parser example_i386 (key_of CHR ''a'') (Some ''nobody'') (main_defaults example_i386)
     = Some \<lparr>ret = ESUCCESS,
             opts = (main_defaults example_i386)\<lparr>opt_anon_owner := 4294967294\<rparr>,
             argp_error = None\<rparr> \<and>
   netfs_append_args example_i386
       ((main_defaults example_i386)\<lparr>opt_anon_owner := 4294967294\<rparr>) []
     = (ESUCCESS, [''--anonymous-owner=-2'']) \<and>
   long_option common_options ''--anonymous-owner=-2'' = Some (key_of CHR ''a'', Some ''-2'') \<and>
   argp_parser example_i386 (key_of CHR ''a'') (Some ''-2'') (main_defaults example_i386)
     = Some \<lparr>ret = ESUCCESS, opts = main_defaults example_i386,
             argp_error =
               Some ''--anonymous-owner: USER should be a user name or a numeric UID.''\<rparr> \<and>
   netfs_append_args (example_i386\<lparr>getpwnam := (\<lambda>nm. if nm = ''1000'' then Some 5 else None)\<rparr>)
       ((main_defaults example_i386)\<lparr>opt_anon_owner := 1000\<rparr>) []
     = (ESUCCESS, [''--anonymous-owner=1000'']) \<and>
   argp_parser (example_i386\<lparr>getpwnam := (\<lambda>nm. if nm = ''1000'' then Some 5 else None)\<rparr>)
       (key_of CHR ''a'') (Some ''1000'') (main_defaults example_i386)
     = Some \<lparr>ret = ESUCCESS, opts = (main_defaults example_i386)\<lparr>opt_anon_owner := 5\<rparr>,
             argp_error = None\<rparr> \<and>
   argp_parser example_x86_64 (key_of CHR ''h'') (Some ''4294967296'')
       (main_defaults example_x86_64)
     = Some \<lparr>ret = ESUCCESS, opts = (main_defaults example_x86_64)\<lparr>opt_clk_tck := 0\<rparr>,
             argp_error = None\<rparr> \<and>
   netfs_append_args example_x86_64 ((main_defaults example_x86_64)\<lparr>opt_clk_tck := 0\<rparr>) []
     = (ESUCCESS, [''--clk-tck=0'']) \<and>
   argp_parser example_x86_64 (key_of CHR ''h'') (Some ''0'') (main_defaults example_x86_64)
     = Some \<lparr>ret = ESUCCESS, opts = main_defaults example_x86_64,
             argp_error = Some ''--clk-tck: HZ should be a positive integer''\<rparr> \<and>
   netfs_append_args example_i386 ((main_defaults example_i386)\<lparr>opt_stat_mode := 4096\<rparr>) []
     = (ESUCCESS, [''--stat-mode=10000'']) \<and>
   argp_parser example_i386 (key_of CHR ''s'') (Some ''10000'') (main_defaults example_i386)
     = Some \<lparr>ret = ESUCCESS, opts = main_defaults example_i386,
             argp_error = Some ''--stat-mode: MODE should be an octal mode''\<rparr> \<and>
   netfs_append_args (example_i386\<lparr>realloc_fails := (\<lambda>argz. True)\<rparr>)
       ((main_defaults example_i386)\<lparr>opt_kernel_pid := 7\<rparr>) []
     = (ENOMEM, [])"
  by code_simp

text \<open>
  Claim C10 as amended. Where \<^verbatim>\<open>long\<close> has at least 32 bits, \<^verbatim>\<open>argz_add\<close> does not
  run out of memory and the default clock tick is representable as an \<^verbatim>\<open>int\<close>:
  \<^verbatim>\<open>netfs_append_args\<close> appends, in the fixed order clk-tck, stat-mode, fake-self,
  anonymous-owner, kernel-process, exactly one word for each option variable that differs
  from its start-up default and none for the others (and then hands the vector to
  \<^verbatim>\<open>netfs_append_std_options\<close>); and if the clock tick is positive or the default, the
  stat mode is within 07777, the anonymous owner is 0 or a uid below \<open>2 ^ 31\<close> whose
  decimal form is no user's name, and the kernel process id is positive, then reading
  these words back from the start-up defaults, through the option table and
  \<^verbatim>\<open>argp_parser\<close>, accepts every word and gives every option variable its value again.
\<close>

theorem C10_append_args_round_trip:
  assumes "32 \<le> LONG_BIT e"
    and "\<forall>argz. \<not> realloc_fails e argz"
    and "- (2 ^ 31) \<le> sysconf_CLK_TCK e" and "sysconf_CLK_TCK e < 2 ^ 31"
  shows "netfs_append_args e s argz = netfs_append_std_options e (argz @ knob_words e s) \<and>
         (reparsable e s \<longrightarrow> parse_words e (knob_words e s) (main_defaults e) = Some s)"
  using netfs_append_args_words [OF assms(2,3,4)] parse_knob_words [OF assms(1)]
  by simp

theorem C10_append_args_witness:
  "(32::nat) \<le> LONG_BIT example_i386 \<and>
   (\<forall>argz. \<not> realloc_fails example_i386 argz) \<and>
   - (2 ^ 31) \<le> sysconf_CLK_TCK example_i386 \<and> sysconf_CLK_TCK example_i386 < 2 ^ 31 \<and>
   reparsable example_i386
     \<lparr>opt_clk_tck = 1000, opt_stat_mode = 292, opt_fake_self = 1, opt_kernel_pid = 3,
      opt_anon_owner = 1000\<rparr> \<and>
   knob_words example_i386
     \<lparr>opt_clk_tck = 1000, opt_stat_mode = 292, opt_fake_self = 1, opt_kernel_pid = 3,
      opt_anon_owner = 1000\<rparr>
     = [''--clk-tck=1000'', ''--stat-mode=444'', ''--fake-self=1'',
        ''--anonymous-owner=1000'', ''--kernel-process=3''] \<and>
   netfs_append_args example_i386
     \<lparr>opt_clk_tck = 1000, opt_stat_mode = 292, opt_fake_self = 1, opt_kernel_pid = 3,
      opt_anon_owner = 1000\<rparr> []
     = (ESUCCESS, [''--clk-tck=1000'', ''--stat-mode=444'', ''--fake-self=1'',
                   ''--anonymous-owner=1000'', ''--kernel-process=3'']) \<and>
   parse_words example_i386
     [''--clk-tck=1000'', ''--stat-mode=444'', ''--fake-self=1'',
      ''--anonymous-owner=1000'', ''--kernel-process=3''] (main_defaults example_i386)
     = Some \<lparr>opt_clk_tck = 1000, opt_stat_mode = 292, opt_fake_self = 1, opt_kernel_pid = 3,
              opt_anon_owner = 1000\<rparr>"
proof -
  let ?s = "\<lparr>opt_clk_tck = 1000, opt_stat_mode = 292, opt_fake_self = 1, opt_kernel_pid = 3,
             opt_anon_owner = 1000\<rparr>"
  have a: "32 \<le> LONG_BIT example_i386" by (simp add: example_i386_def)
  have b: "\<forall>argz. \<not> realloc_fails example_i386 argz" by (simp add: example_i386_def)
  have c: "- (2 ^ 31) \<le> sysconf_CLK_TCK example_i386" "sysconf_CLK_TCK example_i386 < 2 ^ 31"
    by (simp_all add: example_i386_def)
  have r: "reparsable example_i386 ?s" by code_simp
  have k: "knob_words example_i386 ?s
     = [''--clk-tck=1000'', ''--stat-mode=444'', ''--fake-self=1'',
        ''--anonymous-owner=1000'', ''--kernel-process=3'']" by code_simp
  have n: "netfs_append_std_options example_i386 z = (ESUCCESS, z)" for z
    by (simp add: example_i386_def)
  from C10_append_args_round_trip [OF a b c, of ?s "[]"] r
  have "netfs_append_args example_i386 ?s [] = (ESUCCESS, knob_words example_i386 ?s)"
    and "parse_words example_i386 (knob_words example_i386 ?s) (main_defaults example_i386)
           = Some ?s"
    by (simp_all add: n)
  then show ?thesis using a b c r k by simp
qed

end
